theory Spec2Isabelle
  imports Complex_Main "HOL-Library.AList"
begin

section \<open>Python values and exceptions\<close>

text \<open>
  The agents parse the completion service's reply with \<^verbatim>\<open>json.loads\<close> and read it with
  \<^verbatim>\<open>.get\<close>, slicing and \<^verbatim>\<open>float\<close>. The reply is untrusted, so it is modelled as an
  arbitrary JSON value. A JSON object is the list of the items of the dict it is parsed
  into (the keys are distinct); keys are looked up with \<open>map_of\<close>. JSON numbers are real numbers (Python floats are abstracted to the reals
  they denote; NaN and the infinities are not represented). A \<open>string\<close> stands for a
  Python \<^verbatim>\<open>str\<close>, one \<open>char\<close> for each character the source counts.
\<close>

datatype json =
  JNull
  | JBool bool
  | JNum real
  | JStr string
  | JArr "json list"
  | JObj "(string \<times> json) list"

text \<open>Every exception the modelled code can raise is a subclass of \<^verbatim>\<open>Exception\<close>.\<close>

datatype exn =
  TypeError
  | AttributeError
  | ValueError
  | ValidationError
  | JSONDecodeError
  | KeyError
  | ImportError
  | ServiceError string

text \<open>\<^verbatim>\<open>str(e)\<close>: the message text is abstracted to the name of the exception.\<close>

fun str_exn :: "exn \<Rightarrow> string" where
  "str_exn TypeError = ''TypeError''"
| "str_exn AttributeError = ''AttributeError''"
| "str_exn ValueError = ''ValueError''"
| "str_exn ValidationError = ''ValidationError''"
| "str_exn JSONDecodeError = ''JSONDecodeError''"
| "str_exn KeyError = ''KeyError''"
| "str_exn ImportError = ''ImportError''"
| "str_exn (ServiceError m) = m"

text \<open>Sequencing of two steps of which the first may raise.\<close>

definition and_then :: "exn + 'a \<Rightarrow> ('a \<Rightarrow> exn + 'b) \<Rightarrow> exn + 'b" where
  "and_then r k = (case r of Inl e \<Rightarrow> Inl e | Inr x \<Rightarrow> k x)"

text \<open>\<^verbatim>\<open>d.get(k, default)\<close>: only a dict has \<^verbatim>\<open>.get\<close>.\<close>

fun dict_get :: "json \<Rightarrow> string \<Rightarrow> json \<Rightarrow> exn + json" where
  "dict_get (JObj kvs) k d = Inr (case map_of kvs k of Some v \<Rightarrow> v | None \<Rightarrow> d)"
| "dict_get _ k d = Inl AttributeError"

text \<open>\<^verbatim>\<open>x[:n]\<close>: strings and lists are sliced, every other JSON value raises.\<close>

fun slice_to :: "nat \<Rightarrow> json \<Rightarrow> exn + json" where
  "slice_to n (JStr s) = Inr (JStr (take n s))"
| "slice_to n (JArr xs) = Inr (JArr (take n xs))"
| "slice_to n _ = Inl TypeError"

text \<open>
  \<^verbatim>\<open>float(x)\<close>. How Python reads a number out of a string is left to the parameter
  \<open>pf\<close>.
\<close>

fun py_float :: "(string \<Rightarrow> real option) \<Rightarrow> json \<Rightarrow> exn + real" where
  "py_float pf (JNum r) = Inr r"
| "py_float pf (JBool b) = Inr (if b then 1 else 0)"
| "py_float pf (JStr s) = (case pf s of Some r \<Rightarrow> Inr r | None \<Rightarrow> Inl ValueError)"
| "py_float pf _ = Inl TypeError"

text \<open>\<^verbatim>\<open>for x in v\<close>: a list gives its elements, a dict its keys, a string its characters.\<close>

fun py_iter :: "json \<Rightarrow> exn + json list" where
  "py_iter (JArr xs) = Inr xs"
| "py_iter (JObj kvs) = Inr (map (\<lambda>kv. JStr (fst kv)) kvs)"
| "py_iter (JStr s) = Inr (map (\<lambda>c. JStr [c]) s)"
| "py_iter _ = Inl TypeError"

text \<open>
  \<^verbatim>\<open>str.strip()\<close>: the white space of Python among the characters a \<open>char\<close> can
  stand for (code points up to 255); the white space beyond them is not represented.
\<close>

definition is_space :: "char \<Rightarrow> bool" where
  "is_space c = (c \<in> {CHR '' '', CHR 0x09, CHR 0x0A, CHR 0x0B, CHR 0x0C, CHR 0x0D,
                      CHR 0x1C, CHR 0x1D, CHR 0x1E, CHR 0x1F, CHR 0x85, CHR 0xA0})"

definition py_strip :: "string \<Rightarrow> string" where
  "py_strip s = rev (dropWhile is_space (rev (dropWhile is_space s)))"

text \<open>
  \<^verbatim>\<open>float(s)\<close> of a string: white space around is stripped, then a sign, digits (single
  underscores between digits are allowed), a fraction and an exponent are read, and
  nothing may be left over. The value is the real number the numeral denotes (the
  rounding to a double is not modelled). \<^verbatim>\<open>inf\<close> and \<^verbatim>\<open>nan\<close>, which denote no real
  number, give \<open>None\<close>.
\<close>

definition is_digit :: "char \<Rightarrow> bool" where
  "is_digit c = ((48::nat) \<le> of_char c \<and> of_char c \<le> (57::nat))"

definition digit_of :: "char \<Rightarrow> nat" where
  "digit_of c = of_char c - 48"

fun digitpart_rest :: "string \<Rightarrow> nat list \<times> string" where
  "digitpart_rest [] = ([], [])"
| "digitpart_rest [c] = (if is_digit c then ([digit_of c], []) else ([], [c]))"
| "digitpart_rest (c # d # cs) =
     (if is_digit c
      then (case digitpart_rest (d # cs) of (ds, r) \<Rightarrow> (digit_of c # ds, r))
      else if c = CHR ''_'' \<and> is_digit d
      then (case digitpart_rest cs of (ds, r) \<Rightarrow> (digit_of d # ds, r))
      else ([], c # d # cs))"

definition digitpart :: "string \<Rightarrow> (nat list \<times> string) option" where
  "digitpart s = (case s of [] \<Rightarrow> None | c # cs \<Rightarrow> if is_digit c then Some (digitpart_rest s) else None)"

definition digits_value :: "nat list \<Rightarrow> nat" where
  "digits_value ds = foldl (\<lambda>a d. 10 * a + d) 0 ds"

definition mantissa :: "string \<Rightarrow> (real \<times> string) option" where
  "mantissa s =
     (case digitpart s of
        Some (ip, r1) \<Rightarrow>
          (case r1 of
             c # r2 \<Rightarrow>
               (if c = CHR ''.''
                then (case digitpart r2 of
                        Some (fp, r3) \<Rightarrow>
                          Some (real (digits_value ip) + real (digits_value fp) / 10 ^ length fp, r3)
                      | None \<Rightarrow> Some (real (digits_value ip), r2))
                else Some (real (digits_value ip), r1))
           | [] \<Rightarrow> Some (real (digits_value ip), []))
      | None \<Rightarrow>
          (case s of
             c # r2 \<Rightarrow>
               (if c = CHR ''.''
                then (case digitpart r2 of
                        Some (fp, r3) \<Rightarrow> Some (real (digits_value fp) / 10 ^ length fp, r3)
                      | None \<Rightarrow> None)
                else None)
           | [] \<Rightarrow> None))"

definition exponent :: "string \<Rightarrow> (bool \<times> nat) option" where
  "exponent s =
     (case s of
        [] \<Rightarrow> Some (False, 0)
      | e # r \<Rightarrow>
          (if e = CHR ''e'' \<or> e = CHR ''E''
           then (case r of
                   [] \<Rightarrow> None
                 | sg # r' \<Rightarrow>
                     (case digitpart (if sg = CHR ''+'' \<or> sg = CHR ''-'' then r' else r) of
                        Some (ds, []) \<Rightarrow> Some (sg = CHR ''-'', digits_value ds)
                      | _ \<Rightarrow> None))
           else None))"

definition unsigned_float :: "string \<Rightarrow> real option" where
  "unsigned_float s =
     (case mantissa s of
        None \<Rightarrow> None
      | Some (m, r) \<Rightarrow>
          (case exponent r of
             None \<Rightarrow> None
           | Some (neg, n) \<Rightarrow> Some (if neg then m / 10 ^ n else m * 10 ^ n)))"

definition float_of_string :: "string \<Rightarrow> real option" where
  "float_of_string s =
     (case py_strip s of
        [] \<Rightarrow> None
      | c # r \<Rightarrow>
          (if c = CHR ''-'' then map_option uminus (unsigned_float r)
           else if c = CHR ''+'' then unsigned_float r
           else unsigned_float (c # r)))"

text \<open>
  \<^verbatim>\<open>str(x)\<close> of the values whose text needs no rendering of a number or of an element:
  \<^verbatim>\<open>None\<close>, the truth values, a string, the empty list and the empty dict. The text of
  any other value is not modelled; \<open>str_plain\<close> gives three dots for it.
\<close>

fun str_plain :: "json \<Rightarrow> string" where
  "str_plain JNull = ''None''"
| "str_plain (JBool b) = (if b then ''True'' else ''False'')"
| "str_plain (JStr s) = s"
| "str_plain (JArr []) = ''[]''"
| "str_plain (JObj []) = ''{}''"
| "str_plain _ = ''...''"

section \<open>database/models.py\<close>

datatype Priority = LOW | MEDIUM | HIGH | CRITICAL

datatype Category =
  AI_RESEARCH | PRODUCT_LAUNCH | FUNDING | ACQUISITION
  | PARTNERSHIP | REGULATION | TECHNOLOGY | MARKET_TREND

fun Priority_value :: "Priority \<Rightarrow> string" where
  "Priority_value LOW = ''low''"
| "Priority_value MEDIUM = ''medium''"
| "Priority_value HIGH = ''high''"
| "Priority_value CRITICAL = ''critical''"

text \<open>\<^verbatim>\<open>Priority(x)\<close> and \<^verbatim>\<open>Category(x)\<close>: the member with that value, else an exception.\<close>

fun Priority_of :: "json \<Rightarrow> exn + Priority" where
  "Priority_of (JStr s) =
     (if s = ''low'' then Inr LOW
      else if s = ''medium'' then Inr MEDIUM
      else if s = ''high'' then Inr HIGH
      else if s = ''critical'' then Inr CRITICAL
      else Inl ValueError)"
| "Priority_of _ = Inl ValueError"

fun Category_of :: "json \<Rightarrow> exn + Category" where
  "Category_of (JStr s) =
     (if s = ''ai_research'' then Inr AI_RESEARCH
      else if s = ''product_launch'' then Inr PRODUCT_LAUNCH
      else if s = ''funding'' then Inr FUNDING
      else if s = ''acquisition'' then Inr ACQUISITION
      else if s = ''partnership'' then Inr PARTNERSHIP
      else if s = ''regulation'' then Inr REGULATION
      else if s = ''technology'' then Inr TECHNOLOGY
      else if s = ''market_trend'' then Inr MARKET_TREND
      else Inl ValueError)"
| "Category_of _ = Inl ValueError"

text \<open>
  The pydantic models. The fields \<^verbatim>\<open>id\<close> and \<^verbatim>\<open>created_at\<close> are never set by the
  code and are left out; dates are day numbers.
\<close>

record MarketFinding =
  mf_date :: int
  mf_category :: Category
  mf_title :: string
  mf_summary :: string
  mf_content :: string
  relevance_score :: real
  mf_source_url :: "string option"

record CompetitorUpdate =
  company_name :: string
  update_type :: Category
  cu_description :: string
  impact_level :: Priority
  cu_source_url :: "string option"
  detected_date :: int

record Opportunity =
  op_title :: string
  op_description :: string
  market_gap :: string
  score :: real
  priority :: Priority
  potential_revenue :: "string option"
  implementation_complexity :: "string option"
  time_to_market :: "string option"

record Trend =
  trend_name :: string
  tr_category :: Category
  momentum_score :: real
  evidence :: "(string \<times> json) list"
  first_detected :: int
  prediction :: "string option"

record AnalysisRun =
  run_date :: int
  ar_findings_count :: nat
  opportunities_identified :: nat
  ar_key_insights :: "string option"
  ar_recommendations :: "(string \<times> json) list"
  ar_status :: string

text \<open>
  Field validation. What pydantic does with a value of another type than the field's
  (coerce it or reject it) depends on the library and is the parameter \<open>lax\<close>
  (for \<^verbatim>\<open>str\<close> fields) or \<open>laxd\<close> (for \<^verbatim>\<open>Dict\<close> fields); a value of the field's own type
  is taken as it is, and \<^verbatim>\<open>max_length\<close>, \<^verbatim>\<open>ge\<close> and \<^verbatim>\<open>le\<close> are checked on the result.
\<close>

definition str_field :: "(json \<Rightarrow> string option) \<Rightarrow> nat option \<Rightarrow> json \<Rightarrow> exn + string" where
  "str_field lax max_length v =
     (case (case v of JStr s \<Rightarrow> Some s | _ \<Rightarrow> lax v) of
        None \<Rightarrow> Inl ValidationError
      | Some s \<Rightarrow>
          (case max_length of
             None \<Rightarrow> Inr s
           | Some n \<Rightarrow> if length s \<le> n then Inr s else Inl ValidationError))"

definition opt_str_field :: "(json \<Rightarrow> string option) \<Rightarrow> json \<Rightarrow> exn + string option" where
  "opt_str_field lax v =
     (case v of
        JNull \<Rightarrow> Inr None
      | JStr s \<Rightarrow> Inr (Some s)
      | _ \<Rightarrow> (case lax v of None \<Rightarrow> Inl ValidationError | Some s \<Rightarrow> Inr (Some s)))"

definition dict_field :: "(json \<Rightarrow> (string \<times> json) list option) \<Rightarrow> json \<Rightarrow> exn + (string \<times> json) list" where
  "dict_field laxd v =
     (case v of
        JObj kvs \<Rightarrow> Inr kvs
      | _ \<Rightarrow> (case laxd v of None \<Rightarrow> Inl ValidationError | Some kvs \<Rightarrow> Inr kvs))"

definition unit_float_field :: "real \<Rightarrow> exn + real" where
  "unit_float_field r = (if 0 \<le> r \<and> r \<le> 1 then Inr r else Inl ValidationError)"

section \<open>The world outside the process\<close>

record AnalysisSummary =
  period_days :: nat
  start_date :: int
  n_market_findings :: nat
  n_opportunities :: nat
  n_trends :: nat
  n_competitor_updates :: nat
  high_value_opportunities :: nat
  high_momentum_trends :: nat
  critical_competitor_updates :: nat
  category_breakdown :: "(Category \<times> nat) list"

text \<open>
  A prompt is identified by the data the source interpolates into it; the fixed wording
  and the company context (constants of the configuration) are left out.
\<close>

datatype prompt =
  MarketPrompt string string string
  | CompetitorPrompt string string
  | LandscapePrompt "(string \<times> json) list"
  | TrendPrompt "MarketFinding list" "Opportunity list" "string list"
  | SynthesisPrompt "MarketFinding list" "CompetitorUpdate list" "Trend list" "Opportunity list"
  | OpportunityPrompt json
  | BriefingPrompt AnalysisSummary "Opportunity list" "Trend list" "CompetitorUpdate list"
  | PortfolioPrompt "Opportunity list"
  | TopicPrompt string string string
  | ConvergencePrompt "Trend list"

text \<open>
  The collaborators are oracles: what the \<open>n\<close>-th interaction with the outside
  answers. \<open>llm\<close> is \<^verbatim>\<open>self.llm.invoke(prompt).content\<close> (or the exception it raises),
  \<open>loads\<close> is \<^verbatim>\<open>json.loads\<close>, \<open>search\<close> is \<^verbatim>\<open>serper_tool._run\<close> (which catches its own
  errors and always returns text), \<open>db_up\<close> says whether a database request succeeds,
  \<open>mail_ok\<close> whether the notifier delivers. \<open>today\<close> is \<^verbatim>\<open>date.today()\<close>,
  \<open>competitors\<close> is \<^verbatim>\<open>COMPANY_CONTEXT["competitors"]\<close>. Wall-clock readings
  (\<^verbatim>\<open>timestamp\<close>, \<^verbatim>\<open>execution_time\<close>) are not modelled.
\<close>

record env =
  llm :: "nat \<Rightarrow> prompt \<Rightarrow> exn + string"
  loads :: "string \<Rightarrow> exn + json"
  search :: "nat \<Rightarrow> string \<Rightarrow> nat \<Rightarrow> string \<Rightarrow> string \<Rightarrow> string"
  db_up :: "nat \<Rightarrow> bool"
  mail_ok :: "nat \<Rightarrow> bool"
  today :: int
  competitors :: "string list"
  parse_float :: "string \<Rightarrow> real option"
  lax_str :: "json \<Rightarrow> string option"
  lax_dict :: "json \<Rightarrow> (string \<times> json) list option"
  py_str :: "json \<Rightarrow> string"

record Alert =
  al_title :: string
  al_description :: string
  al_impact_level :: string
  al_source :: string
  recommended_action :: string

record ReportData =
  rd_executive_summary :: json
  rd_findings_count :: nat
  rd_opportunities_count :: nat
  rd_competitor_updates :: nat
  rd_trends_identified :: nat
  rd_top_opportunities :: "Opportunity list"
  rd_key_insights :: json
  rd_recommendations :: json
  rd_critical_alerts :: "Alert list option"

text \<open>
  The state: the five tables of the Result Store, each in insertion order (so
  \<^verbatim>\<open>created_at\<close> grows along the list), the number of interactions so far, and the
  messages handed to the notifier. A stored row is the record that was inserted.
\<close>

text \<open>
  A stage returns one of two dict literals: its report, or the error dict
  \<^verbatim>\<open>{"agent", "timestamp", "error": str(e), <count>: 0}\<close>.
\<close>

datatype 'a stage_result = Ok 'a | Failed string

record Briefing =
  briefing_content :: string
  src_opportunities :: nat
  src_trends :: nat
  src_competitive_updates :: nat

record Portfolio =
  portfolio_size :: nat
  portfolio_analysis :: string

record SummaryData =
  sd_summary :: AnalysisSummary
  executive_briefing :: "Briefing stage_result"
  portfolio_assessment :: "Portfolio stage_result"

datatype mail = CriticalAlertMail Alert | DailyReportMail ReportData | WeeklySummaryMail SummaryData

record world =
  market_findings :: "MarketFinding list"
  competitor_updates :: "CompetitorUpdate list"
  opportunities :: "Opportunity list"
  trends :: "Trend list"
  analysis_runs :: "AnalysisRun list"
  tick :: nat
  outbox :: "mail list"

definition next_tick :: "world \<Rightarrow> world" where
  "next_tick w = w\<lparr>tick := Suc (tick w)\<rparr>"

definition llm_invoke :: "env \<Rightarrow> prompt \<Rightarrow> world \<Rightarrow> (exn + string) \<times> world" where
  "llm_invoke env p w = (llm env (tick w) p, next_tick w)"

text \<open>\<^verbatim>\<open>json.loads(self.llm.invoke(prompt).content)\<close>\<close>

definition llm_json :: "env \<Rightarrow> prompt \<Rightarrow> world \<Rightarrow> (exn + json) \<times> world" where
  "llm_json env p w =
     (let (reply, w') = llm_invoke env p w in (and_then reply (loads env), w'))"

section \<open>tools/serper\_search.py\<close>

definition serper_run :: "env \<Rightarrow> string \<Rightarrow> nat \<Rightarrow> string \<Rightarrow> string \<Rightarrow> world \<Rightarrow> string \<times> world" where
  "serper_run env query num_results time_range search_type w =
     (search env (tick w) query num_results time_range search_type, next_tick w)"

definition search_ai_news :: "env \<Rightarrow> nat \<Rightarrow> world \<Rightarrow> string \<times> world" where
  "search_ai_news env days_back w =
     serper_run env ''artificial intelligence AI news technology breakthrough startup funding'' 20
       (if days_back \<le> 1 then ''d'' else if days_back \<le> 7 then ''w'' else ''m'') ''news'' w"

definition search_competitor_updates :: "env \<Rightarrow> string \<Rightarrow> nat \<Rightarrow> world \<Rightarrow> string \<times> world" where
  "search_competitor_updates env company days_back w =
     serper_run env
       ([CHR 0x22] @ company @ [CHR 0x22] @ '' AI artificial intelligence update news announcement product launch'')
       15 (if days_back \<le> 7 then ''w'' else ''m'') ''news'' w"

section \<open>database/supabase\_client.py\<close>

text \<open>
  Every operation catches its own exceptions: a failed insert returns \<^verbatim>\<open>None\<close>, a
  failed query the empty list.
\<close>

definition insert_market_finding :: "env \<Rightarrow> MarketFinding \<Rightarrow> world \<Rightarrow> MarketFinding option \<times> world" where
  "insert_market_finding env f w =
     (if db_up env (tick w)
      then (Some f, next_tick (w\<lparr>market_findings := market_findings w @ [f]\<rparr>))
      else (None, next_tick w))"

definition insert_competitor_update :: "env \<Rightarrow> CompetitorUpdate \<Rightarrow> world \<Rightarrow> CompetitorUpdate option \<times> world" where
  "insert_competitor_update env u w =
     (if db_up env (tick w)
      then (Some u, next_tick (w\<lparr>competitor_updates := competitor_updates w @ [u]\<rparr>))
      else (None, next_tick w))"

definition insert_opportunity :: "env \<Rightarrow> Opportunity \<Rightarrow> world \<Rightarrow> Opportunity option \<times> world" where
  "insert_opportunity env opp w =
     (if db_up env (tick w)
      then (Some opp, next_tick (w\<lparr>opportunities := opportunities w @ [opp]\<rparr>))
      else (None, next_tick w))"

definition insert_trend :: "env \<Rightarrow> Trend \<Rightarrow> world \<Rightarrow> Trend option \<times> world" where
  "insert_trend env t w =
     (if db_up env (tick w)
      then (Some t, next_tick (w\<lparr>trends := trends w @ [t]\<rparr>))
      else (None, next_tick w))"

definition insert_analysis_run :: "env \<Rightarrow> AnalysisRun \<Rightarrow> world \<Rightarrow> AnalysisRun option \<times> world" where
  "insert_analysis_run env r w =
     (if db_up env (tick w)
      then (Some r, next_tick (w\<lparr>analysis_runs := analysis_runs w @ [r]\<rparr>))
      else (None, next_tick w))"

text \<open>
  The queries. \<^verbatim>\<open>order("created_at", desc=True)\<close> is the reversed table;
  \<^verbatim>\<open>order("score", desc=True)\<close> sorts by the score, largest first (the order among equal
  scores is the database's; the model fixes one). A filter argument that is \<^verbatim>\<open>None\<close>
  or falsy (\<^verbatim>\<open>0.0\<close>) is not applied.
\<close>

definition get_market_findings ::
  "env \<Rightarrow> nat \<Rightarrow> Category option \<Rightarrow> int option \<Rightarrow> world \<Rightarrow> MarketFinding list \<times> world" where
  "get_market_findings env limit category start w =
     (if db_up env (tick w)
      then take limit (rev (filter
             (\<lambda>f. (case category of None \<Rightarrow> True | Some c \<Rightarrow> mf_category f = c)
                \<and> (case start of None \<Rightarrow> True | Some d \<Rightarrow> d \<le> mf_date f))
             (market_findings w)))
      else [],
      next_tick w)"

definition get_competitor_updates ::
  "env \<Rightarrow> string option \<Rightarrow> nat \<Rightarrow> world \<Rightarrow> CompetitorUpdate list \<times> world" where
  "get_competitor_updates env company limit w =
     (if db_up env (tick w)
      then take limit (rev (filter
             (\<lambda>u. (case company of None \<Rightarrow> True | Some c \<Rightarrow> c = [] \<or> company_name u = c))
             (competitor_updates w)))
      else [],
      next_tick w)"

definition get_opportunities ::
  "env \<Rightarrow> real option \<Rightarrow> nat \<Rightarrow> world \<Rightarrow> Opportunity list \<times> world" where
  "get_opportunities env min_score limit w =
     (if db_up env (tick w)
      then take limit (rev (sort_key score (filter
             (\<lambda>opp. (case min_score of None \<Rightarrow> True | Some m \<Rightarrow> m = 0 \<or> m \<le> score opp))
             (opportunities w))))
      else [],
      next_tick w)"

definition get_trends ::
  "env \<Rightarrow> Category option \<Rightarrow> real option \<Rightarrow> nat \<Rightarrow> world \<Rightarrow> Trend list \<times> world" where
  "get_trends env category min_momentum limit w =
     (if db_up env (tick w)
      then take limit (rev (sort_key momentum_score (filter
             (\<lambda>t. (case category of None \<Rightarrow> True | Some c \<Rightarrow> tr_category t = c)
                \<and> (case min_momentum of None \<Rightarrow> True | Some m \<Rightarrow> m = 0 \<or> m \<le> momentum_score t))
             (trends w))))
      else [],
      next_tick w)"

text \<open>\<^verbatim>\<open>category_counts[category] = category_counts.get(category, 0) + 1\<close>\<close>

definition count_category :: "(Category \<times> nat) list \<Rightarrow> MarketFinding \<Rightarrow> (Category \<times> nat) list" where
  "count_category counts f =
     AList.update (mf_category f)
       ((case map_of counts (mf_category f) of None \<Rightarrow> 0 | Some n \<Rightarrow> n) + 1) counts"

definition get_latest_findings_by_category :: "env \<Rightarrow> world \<Rightarrow> (Category \<times> nat) list \<times> world" where
  "get_latest_findings_by_category env w =
     (let (found, w') = get_market_findings env 1000 None (Some (today env - 7)) w
      in (foldl count_category [] found, w'))"

definition get_analysis_summary :: "env \<Rightarrow> nat \<Rightarrow> world \<Rightarrow> AnalysisSummary \<times> world" where
  "get_analysis_summary env days w =
     (let (found, w1) = get_market_findings env 1000 None (Some (today env - int days)) w;
          (opps, w2) = get_opportunities env None 1000 w1;
          (trs, w3) = get_trends env None None 1000 w2;
          (ups, w4) = get_competitor_updates env None 1000 w3;
          (breakdown, w5) = get_latest_findings_by_category env w4
      in (\<lparr>period_days = days,
           start_date = today env - int days,
           n_market_findings = length found,
           n_opportunities = length opps,
           n_trends = length trs,
           n_competitor_updates = length ups,
           high_value_opportunities = length (filter (\<lambda>opp. score opp > 7 / 10) opps),
           high_momentum_trends = length (filter (\<lambda>t. momentum_score t > 7 / 10) trs),
           critical_competitor_updates =
             length (filter (\<lambda>u. impact_level u \<in> {HIGH, CRITICAL}) ups),
           category_breakdown = breakdown\<rparr>, w5))"

section \<open>agents/market\_intelligence.py\<close>

record MarketReport =
  m_executive_summary :: json
  findings_count :: nat
  m_key_insights :: json
  recommended_actions :: json
  findings :: "MarketFinding list"

text \<open>\<^verbatim>\<open>MarketFinding(...)\<close>: the model's validation of the arguments it is called with.\<close>

definition MarketFinding_init ::
  "env \<Rightarrow> int \<Rightarrow> Category \<Rightarrow> json \<Rightarrow> json \<Rightarrow> json \<Rightarrow> real \<Rightarrow> json \<Rightarrow> exn + MarketFinding" where
  "MarketFinding_init env d category title summary content relevance url =
     and_then (str_field (lax_str env) (Some 500) title) (\<lambda>t.
     and_then (str_field (lax_str env) (Some 2000) summary) (\<lambda>s.
     and_then (str_field (lax_str env) None content) (\<lambda>c.
     and_then (unit_float_field relevance) (\<lambda>r.
     and_then (opt_str_field (lax_str env) url) (\<lambda>u.
       Inr \<lparr>mf_date = d, mf_category = category, mf_title = t, mf_summary = s,
            mf_content = c, relevance_score = r, mf_source_url = u\<rparr>)))))"

text \<open>
  Lines 107 to 115 of \<^verbatim>\<open>gather_market_intelligence\<close>: the arguments are evaluated in the
  order they are written, then the model is validated.
\<close>

definition make_market_finding :: "env \<Rightarrow> json \<Rightarrow> exn + MarketFinding" where
  "make_market_finding env finding =
     and_then (dict_get finding ''category'' (JStr ''market_trend'')) (\<lambda>c.
     and_then (Category_of c) (\<lambda>category.
     and_then (dict_get finding ''title'' (JStr [])) (\<lambda>t.
     and_then (slice_to 500 t) (\<lambda>title.
     and_then (dict_get finding ''summary'' (JStr [])) (\<lambda>s.
     and_then (slice_to 2000 s) (\<lambda>summary.
     and_then (dict_get finding ''content'' (JStr [])) (\<lambda>content.
     and_then (dict_get finding ''relevance_score'' (JNum 0)) (\<lambda>r.
     and_then (py_float (parse_float env) r) (\<lambda>relevance.
     and_then (dict_get finding ''source_url'' JNull) (\<lambda>url.
       MarketFinding_init env (today env) category title summary content relevance url))))))))))"

text \<open>
  The loop over \<^verbatim>\<open>analysis.get("findings", [])\<close>: an item whose construction raises is
  skipped, an item the database does not return is not counted.
\<close>

fun store_findings :: "env \<Rightarrow> json list \<Rightarrow> MarketFinding list \<Rightarrow> world \<Rightarrow> MarketFinding list \<times> world" where
  "store_findings env [] stored_findings w = (stored_findings, w)"
| "store_findings env (finding # rest) stored_findings w =
     (case make_market_finding env finding of
        Inl e \<Rightarrow> store_findings env rest stored_findings w
      | Inr market_finding \<Rightarrow>
          (case insert_market_finding env market_finding w of
             (Some stored_finding, w') \<Rightarrow> store_findings env rest (stored_findings @ [stored_finding]) w'
           | (None, w') \<Rightarrow> store_findings env rest stored_findings w'))"

text \<open>
  The body of the \<^verbatim>\<open>try\<close> block of \<^verbatim>\<open>gather_market_intelligence\<close>, in two parts: the
  searches and the completion call with its parse, and what is done with the parsed
  analysis.
\<close>

definition market_fetch :: "env \<Rightarrow> world \<Rightarrow> (exn + json) \<times> world" where
  "market_fetch env w =
     (let (ai_news, w1) = search_ai_news env 7 w;
          (emerging_tech, w2) =
             serper_run env ''emerging AI technologies 2024 breakthrough innovation'' 15 ''m'' ''news'' w1;
          (funding_news, w3) =
             serper_run env ''AI startup funding venture capital investment 2024'' 10 ''w'' ''news'' w2
      in llm_json env (MarketPrompt ai_news emerging_tech funding_news) w3)"

definition market_process :: "env \<Rightarrow> json \<Rightarrow> world \<Rightarrow> (exn + MarketReport) \<times> world" where
  "market_process env analysis w4 =
     (case and_then (dict_get analysis ''findings'' (JArr [])) py_iter of
        Inl e \<Rightarrow> (Inl e, w4)
      | Inr items \<Rightarrow>
          (let (stored_findings, w5) = store_findings env items [] w4
           in (and_then (dict_get analysis ''executive_summary'' (JStr [])) (\<lambda>es.
               and_then (dict_get analysis ''key_insights'' (JArr [])) (\<lambda>ki.
               and_then (dict_get analysis ''recommended_actions'' (JArr [])) (\<lambda>ra.
                 Inr \<lparr>m_executive_summary = es,
                      findings_count = length stored_findings,
                      m_key_insights = ki,
                      recommended_actions = ra,
                      findings = stored_findings\<rparr>))), w5)))"

definition market_body :: "env \<Rightarrow> world \<Rightarrow> (exn + MarketReport) \<times> world" where
  "market_body env w =
     (case market_fetch env w of
        (Inl e, w4) \<Rightarrow> (Inl e, w4)
      | (Inr analysis, w4) \<Rightarrow> market_process env analysis w4)"

text \<open>\<^verbatim>\<open>try: ... except Exception as e: return {..., "error": str(e), "findings_count": 0}\<close>\<close>

definition catch_stage :: "(exn + 'a) \<times> world \<Rightarrow> 'a stage_result \<times> world" where
  "catch_stage r = (case r of (Inl e, w) \<Rightarrow> (Failed (str_exn e), w) | (Inr x, w) \<Rightarrow> (Ok x, w))"

definition gather_market_intelligence :: "env \<Rightarrow> world \<Rightarrow> MarketReport stage_result \<times> world" where
  "gather_market_intelligence env w = catch_stage (market_body env w)"


section \<open>agents/competitor\_intelligence.py\<close>

record Threat =
  th_company :: string
  th_threat :: string
  th_impact :: Priority
  th_date :: int

record CompetitorReport =
  competitors_monitored :: nat
  updates_found :: nat
  landscape_analysis :: json
  competitor_analyses :: "(string \<times> json) list"
  critical_threats :: "Threat list"
  c_strategic_recommendations :: json

definition CompetitorUpdate_init ::
  "env \<Rightarrow> string \<Rightarrow> Category \<Rightarrow> json \<Rightarrow> Priority \<Rightarrow> json \<Rightarrow> int \<Rightarrow> exn + CompetitorUpdate" where
  "CompetitorUpdate_init env name utype description impact url d =
     and_then (str_field (lax_str env) (Some 255) (JStr name)) (\<lambda>n.
     and_then (str_field (lax_str env) None description) (\<lambda>ds.
     and_then (opt_str_field (lax_str env) url) (\<lambda>u.
       Inr \<lparr>company_name = n, update_type = utype, cu_description = ds,
            impact_level = impact, cu_source_url = u, detected_date = d\<rparr>)))"

definition make_competitor_update :: "env \<Rightarrow> string \<Rightarrow> json \<Rightarrow> exn + CompetitorUpdate" where
  "make_competitor_update env competitor_name update =
     and_then (dict_get update ''update_type'' (JStr ''market_trend'')) (\<lambda>ut.
     and_then (Category_of ut) (\<lambda>utype.
     and_then (dict_get update ''description'' (JStr [])) (\<lambda>description.
     and_then (dict_get update ''impact_level'' (JStr ''medium'')) (\<lambda>il.
     and_then (Priority_of il) (\<lambda>impact.
     and_then (dict_get update ''source_url'' JNull) (\<lambda>url.
       CompetitorUpdate_init env competitor_name utype description impact url (today env)))))))"

fun store_updates :: "env \<Rightarrow> string \<Rightarrow> json list \<Rightarrow> CompetitorUpdate list \<Rightarrow> world \<Rightarrow> CompetitorUpdate list \<times> world" where
  "store_updates env competitor_name [] all_updates w = (all_updates, w)"
| "store_updates env competitor_name (update # rest) all_updates w =
     (case make_competitor_update env competitor_name update of
        Inl e \<Rightarrow> store_updates env competitor_name rest all_updates w
      | Inr competitor_update \<Rightarrow>
          (case insert_competitor_update env competitor_update w of
             (Some stored_update, w') \<Rightarrow>
               store_updates env competitor_name rest (all_updates @ [stored_update]) w'
           | (None, w') \<Rightarrow> store_updates env competitor_name rest all_updates w'))"

text \<open>
  \<^verbatim>\<open>_analyze_competitor_updates\<close> and \<^verbatim>\<open>_analyze_competitive_landscape\<close> catch every
  exception of the completion call and of the parse, and return a fallback dict.
\<close>

definition analyze_competitor_updates :: "env \<Rightarrow> string \<Rightarrow> string \<Rightarrow> world \<Rightarrow> json \<times> world" where
  "analyze_competitor_updates env competitor_name search_results w =
     (case llm_json env (CompetitorPrompt competitor_name search_results) w of
        (Inr analysis, w') \<Rightarrow> (analysis, w')
      | (Inl e, w') \<Rightarrow>
          (JObj [(''competitor_summary'', JStr (''Error analyzing '' @ competitor_name)),
                 (''updates'', JArr []),
                 (''competitive_threat_level'', JStr ''unknown'')], w'))"

definition analyze_competitive_landscape :: "env \<Rightarrow> (string \<times> json) list \<Rightarrow> world \<Rightarrow> json \<times> world" where
  "analyze_competitive_landscape env analyses w =
     (case llm_json env (LandscapePrompt analyses) w of
        (Inr analysis, w') \<Rightarrow> (analysis, w')
      | (Inl e, w') \<Rightarrow>
          (JObj [(''landscape_summary'', JStr ''Error in landscape analysis''),
                 (''recommendations'', JArr [])], w'))"

fun critical_threats_loop :: "CompetitorUpdate list \<Rightarrow> Threat list \<Rightarrow> Threat list" where
  "critical_threats_loop [] threats = threats"
| "critical_threats_loop (update # rest) threats =
     (if impact_level update \<in> {HIGH, CRITICAL}
      then critical_threats_loop rest
             (threats @ [\<lparr>th_company = company_name update, th_threat = cu_description update,
                           th_impact = impact_level update, th_date = detected_date update\<rparr>])
      else critical_threats_loop rest threats)"

definition identify_critical_threats :: "CompetitorUpdate list \<Rightarrow> Threat list" where
  "identify_critical_threats updates = critical_threats_loop updates []"

text \<open>The loop over the configured competitors.\<close>

fun monitor_loop ::
  "env \<Rightarrow> string list \<Rightarrow> CompetitorUpdate list \<Rightarrow> (string \<times> json) list \<Rightarrow> world
     \<Rightarrow> (exn + CompetitorUpdate list \<times> (string \<times> json) list) \<times> world" where
  "monitor_loop env [] all_updates analyses w = (Inr (all_updates, analyses), w)"
| "monitor_loop env (competitor # rest) all_updates analyses w =
     (if py_strip competitor = [] then monitor_loop env rest all_updates analyses w
      else
        (let (updates, w1) = search_competitor_updates env (py_strip competitor) 30 w;
             (analysis, w2) = analyze_competitor_updates env (py_strip competitor) updates w1
         in (case and_then (dict_get analysis ''updates'' (JArr [])) py_iter of
               Inl e \<Rightarrow> (Inl e, w2)
             | Inr items \<Rightarrow>
                 (let (all_updates', w3) =
                         store_updates env (py_strip competitor) items all_updates w2
                  in monitor_loop env rest all_updates'
                       (AList.update (py_strip competitor) analysis analyses) w3))))"

definition competitor_body :: "env \<Rightarrow> world \<Rightarrow> (exn + CompetitorReport) \<times> world" where
  "competitor_body env w =
     (case monitor_loop env (competitors env) [] [] w of
        (Inl e, w1) \<Rightarrow> (Inl e, w1)
      | (Inr (all_updates, analyses), w1) \<Rightarrow>
          (let (landscape, w2) = analyze_competitive_landscape env analyses w1
           in (and_then (dict_get landscape ''recommendations'' (JArr [])) (\<lambda>recs.
                 Inr \<lparr>competitors_monitored = length (competitors env),
                      updates_found = length all_updates,
                      landscape_analysis = landscape,
                      competitor_analyses = analyses,
                      critical_threats = identify_critical_threats all_updates,
                      c_strategic_recommendations = recs\<rparr>), w2)))"

definition monitor_competitors :: "env \<Rightarrow> world \<Rightarrow> CompetitorReport stage_result \<times> world" where
  "monitor_competitors env w = catch_stage (competitor_body env w)"

section \<open>agents/trend\_analysis.py\<close>

record TrendReport =
  trends_identified :: nat
  analysis_summary :: json
  key_trends :: "Trend list"
  market_predictions :: json
  opportunity_indicators :: json
  risk_factors :: json

definition search_current_trends :: "env \<Rightarrow> world \<Rightarrow> string list \<times> world" where
  "search_current_trends env w =
     (let (ai_technology, w1) =
             serper_run env ''AI technology trends 2024 emerging artificial intelligence'' 15 ''m'' ''news'' w;
          (enterprise_adoption, w2) =
             serper_run env ''enterprise AI adoption trends business automation 2024'' 12 ''m'' ''search'' w1;
          (investment_trends, w3) =
             serper_run env ''AI investment trends venture capital funding 2024'' 10 ''m'' ''news'' w2;
          (regulatory_trends, w4) =
             serper_run env ''AI regulation policy trends government artificial intelligence'' 10 ''m'' ''search'' w3
      in ([ai_technology, enterprise_adoption, investment_trends, regulatory_trends], w4))"

definition analyze_trend_patterns ::
  "env \<Rightarrow> MarketFinding list \<Rightarrow> Opportunity list \<Rightarrow> string list \<Rightarrow> world \<Rightarrow> json \<times> world" where
  "analyze_trend_patterns env historical_findings historical_opportunities current_trends w =
     (case llm_json env
             (TrendPrompt (take 20 historical_findings) (take 10 historical_opportunities) current_trends) w of
        (Inr analysis, w') \<Rightarrow> (analysis, w')
      | (Inl e, w') \<Rightarrow>
          (JObj [(''summary'', JStr ''Error in trend analysis''),
                 (''trends'', JArr []),
                 (''predictions'', JArr [])], w'))"

definition Trend_init :: "env \<Rightarrow> json \<Rightarrow> Category \<Rightarrow> real \<Rightarrow> json \<Rightarrow> int \<Rightarrow> json \<Rightarrow> exn + Trend" where
  "Trend_init env name category momentum ev d pred =
     and_then (str_field (lax_str env) (Some 255) name) (\<lambda>n.
     and_then (unit_float_field momentum) (\<lambda>m.
     and_then (dict_field (lax_dict env) ev) (\<lambda>evd.
     and_then (opt_str_field (lax_str env) pred) (\<lambda>p.
       Inr \<lparr>trend_name = n, tr_category = category, momentum_score = m,
            evidence = evd, first_detected = d, prediction = p\<rparr>))))"

definition make_trend :: "env \<Rightarrow> json \<Rightarrow> exn + Trend" where
  "make_trend env trend =
     and_then (dict_get trend ''trend_name'' (JStr [])) (\<lambda>tn.
     and_then (slice_to 255 tn) (\<lambda>name.
     and_then (dict_get trend ''category'' (JStr ''market_trend'')) (\<lambda>c.
     and_then (Category_of c) (\<lambda>category.
     and_then (dict_get trend ''momentum_score'' (JNum 0)) (\<lambda>m.
     and_then (py_float (parse_float env) m) (\<lambda>momentum.
     and_then (dict_get trend ''evidence'' (JObj [])) (\<lambda>ev.
     and_then (dict_get trend ''prediction'' (JStr [])) (\<lambda>pred.
       Trend_init env name category momentum ev (today env) pred))))))))"

fun store_trends :: "env \<Rightarrow> json list \<Rightarrow> Trend list \<Rightarrow> world \<Rightarrow> Trend list \<times> world" where
  "store_trends env [] stored_trends w = (stored_trends, w)"
| "store_trends env (trend # rest) stored_trends w =
     (case make_trend env trend of
        Inl e \<Rightarrow> store_trends env rest stored_trends w
      | Inr trend_model \<Rightarrow>
          (case insert_trend env trend_model w of
             (Some stored_trend, w') \<Rightarrow> store_trends env rest (stored_trends @ [stored_trend]) w'
           | (None, w') \<Rightarrow> store_trends env rest stored_trends w'))"

definition trend_fetch :: "env \<Rightarrow> world \<Rightarrow> json \<times> world" where
  "trend_fetch env w =
     (let (historical_findings, w1) = get_market_findings env 100 None (Some (today env - 180)) w;
          (historical_opportunities, w2) = get_opportunities env None 50 w1;
          (current_trends, w3) = search_current_trends env w2
      in analyze_trend_patterns env historical_findings historical_opportunities current_trends w3)"

definition trend_process :: "env \<Rightarrow> json \<Rightarrow> world \<Rightarrow> (exn + TrendReport) \<times> world" where
  "trend_process env trend_analysis w4 =
     (case and_then (dict_get trend_analysis ''trends'' (JArr [])) py_iter of
        Inl e \<Rightarrow> (Inl e, w4)
      | Inr items \<Rightarrow>
          (let (stored_trends, w5) = store_trends env items [] w4
           in (and_then (dict_get trend_analysis ''summary'' (JStr [])) (\<lambda>sm.
               and_then (dict_get trend_analysis ''predictions'' (JArr [])) (\<lambda>pr.
               and_then (dict_get trend_analysis ''opportunity_indicators'' (JArr [])) (\<lambda>oi.
               and_then (dict_get trend_analysis ''risk_factors'' (JArr [])) (\<lambda>rf.
                 Inr \<lparr>trends_identified = length stored_trends,
                      analysis_summary = sm,
                      key_trends = stored_trends,
                      market_predictions = pr,
                      opportunity_indicators = oi,
                      risk_factors = rf\<rparr>)))), w5)))"

definition trend_body :: "env \<Rightarrow> world \<Rightarrow> (exn + TrendReport) \<times> world" where
  "trend_body env w = (let (trend_analysis, w4) = trend_fetch env w in trend_process env trend_analysis w4)"

definition analyze_market_trends :: "env \<Rightarrow> world \<Rightarrow> TrendReport stage_result \<times> world" where
  "analyze_market_trends env w = catch_stage (trend_body env w)"


section \<open>agents/strategic\_synthesis.py\<close>

record SynthesisReport =
  s_executive_summary :: json
  strategic_insights :: json
  new_opportunities :: nat
  top_opportunities :: "Opportunity list"
  strategic_recommendations :: json
  competitive_positioning :: json
  risk_assessment :: json
  action_plan :: json

definition synthesize_intelligence ::
  "env \<Rightarrow> MarketFinding list \<Rightarrow> CompetitorUpdate list \<Rightarrow> Trend list \<Rightarrow> Opportunity list \<Rightarrow> world
     \<Rightarrow> json \<times> world" where
  "synthesize_intelligence env market_findings' competitor_updates' trends' existing_opportunities w =
     (case llm_json env
             (SynthesisPrompt (take 15 market_findings') (take 15 competitor_updates')
                (take 10 trends') (take 5 existing_opportunities)) w of
        (Inr analysis, w') \<Rightarrow> (analysis, w')
      | (Inl e, w') \<Rightarrow>
          (JObj [(''executive_summary'', JStr ''Error in strategic synthesis''),
                 (''strategic_insights'', JArr []),
                 (''recommendations'', JArr [])], w'))"

definition identify_opportunities :: "env \<Rightarrow> json \<Rightarrow> world \<Rightarrow> json \<times> world" where
  "identify_opportunities env strategic_analysis w =
     (case llm_json env (OpportunityPrompt strategic_analysis) w of
        (Inr result, w') \<Rightarrow>
          (case dict_get result ''opportunities'' (JArr []) of
             Inr found \<Rightarrow> (found, w')
           | Inl e \<Rightarrow> (JArr [], w'))
      | (Inl e, w') \<Rightarrow> (JArr [], w'))"

definition Opportunity_init ::
  "env \<Rightarrow> json \<Rightarrow> json \<Rightarrow> json \<Rightarrow> real \<Rightarrow> Priority \<Rightarrow> json \<Rightarrow> json \<Rightarrow> json \<Rightarrow> exn + Opportunity" where
  "Opportunity_init env title description gap sc prio revenue complexity ttm =
     and_then (str_field (lax_str env) (Some 255) title) (\<lambda>t.
     and_then (str_field (lax_str env) None description) (\<lambda>ds.
     and_then (str_field (lax_str env) None gap) (\<lambda>g.
     and_then (unit_float_field sc) (\<lambda>s.
     and_then (opt_str_field (lax_str env) revenue) (\<lambda>rv.
     and_then (opt_str_field (lax_str env) complexity) (\<lambda>cx.
     and_then (opt_str_field (lax_str env) ttm) (\<lambda>tm.
       Inr \<lparr>op_title = t, op_description = ds, market_gap = g, score = s, priority = prio,
            potential_revenue = rv, implementation_complexity = cx, time_to_market = tm\<rparr>)))))))"

definition make_opportunity :: "env \<Rightarrow> json \<Rightarrow> exn + Opportunity" where
  "make_opportunity env opportunity =
     and_then (dict_get opportunity ''title'' (JStr [])) (\<lambda>t.
     and_then (slice_to 255 t) (\<lambda>title.
     and_then (dict_get opportunity ''description'' (JStr [])) (\<lambda>description.
     and_then (dict_get opportunity ''market_gap'' (JStr [])) (\<lambda>gap.
     and_then (dict_get opportunity ''score'' (JNum 0)) (\<lambda>s.
     and_then (py_float (parse_float env) s) (\<lambda>sc.
     and_then (dict_get opportunity ''priority'' (JStr ''medium'')) (\<lambda>p.
     and_then (Priority_of p) (\<lambda>prio.
     and_then (dict_get opportunity ''potential_revenue'' JNull) (\<lambda>revenue.
     and_then (dict_get opportunity ''implementation_complexity'' JNull) (\<lambda>complexity.
     and_then (dict_get opportunity ''time_to_market'' JNull) (\<lambda>ttm.
       Opportunity_init env title description gap sc prio revenue complexity ttm)))))))))))"

fun store_opportunities :: "env \<Rightarrow> json list \<Rightarrow> Opportunity list \<Rightarrow> world \<Rightarrow> Opportunity list \<times> world" where
  "store_opportunities env [] stored_opportunities w = (stored_opportunities, w)"
| "store_opportunities env (opportunity # rest) stored_opportunities w =
     (case make_opportunity env opportunity of
        Inl e \<Rightarrow> store_opportunities env rest stored_opportunities w
      | Inr opp_model \<Rightarrow>
          (case insert_opportunity env opp_model w of
             (Some stored_opp, w') \<Rightarrow>
               store_opportunities env rest (stored_opportunities @ [stored_opp]) w'
           | (None, w') \<Rightarrow> store_opportunities env rest stored_opportunities w'))"

text \<open>
  What \<^verbatim>\<open>generate_strategic_analysis\<close> gathers before it calls the completion service:
  four queries of the Result Store. The function has no parameter.
\<close>

definition synthesis_reads ::
  "env \<Rightarrow> world \<Rightarrow> (MarketFinding list \<times> CompetitorUpdate list \<times> Trend list \<times> Opportunity list) \<times> world" where
  "synthesis_reads env w =
     (let (recent_findings, w1) = get_market_findings env 30 None (Some (today env - 30)) w;
          (competitor_updates', w2) = get_competitor_updates env None 20 w1;
          (current_trends, w3) = get_trends env None (Some (4 / 10)) 15 w2;
          (existing_opportunities, w4) = get_opportunities env None 10 w3
      in ((recent_findings, competitor_updates', current_trends, existing_opportunities), w4))"

definition synthesis_fetch :: "env \<Rightarrow> world \<Rightarrow> (json \<times> json) \<times> world" where
  "synthesis_fetch env w =
     (let ((recent_findings, competitor_updates', current_trends, existing_opportunities), w4) =
             synthesis_reads env w;
          (strategic_analysis, w5) =
             synthesize_intelligence env recent_findings competitor_updates' current_trends
               existing_opportunities w4;
          (new_opps, w6) = identify_opportunities env strategic_analysis w5
      in ((strategic_analysis, new_opps), w6))"

definition synthesis_process :: "env \<Rightarrow> json \<Rightarrow> json \<Rightarrow> world \<Rightarrow> (exn + SynthesisReport) \<times> world" where
  "synthesis_process env strategic_analysis new_opps w6 =
     (case py_iter new_opps of
        Inl e \<Rightarrow> (Inl e, w6)
      | Inr items \<Rightarrow>
          (let (stored_opportunities, w7) = store_opportunities env items [] w6
           in (and_then (dict_get strategic_analysis ''executive_summary'' (JStr [])) (\<lambda>es.
               and_then (dict_get strategic_analysis ''strategic_insights'' (JArr [])) (\<lambda>si.
               and_then (dict_get strategic_analysis ''recommendations'' (JArr [])) (\<lambda>recs.
               and_then (dict_get strategic_analysis ''competitive_positioning'' (JStr [])) (\<lambda>cp.
               and_then (dict_get strategic_analysis ''risk_assessment'' (JArr [])) (\<lambda>ra.
               and_then (dict_get strategic_analysis ''action_plan'' (JArr [])) (\<lambda>ap.
                 Inr \<lparr>s_executive_summary = es,
                      strategic_insights = si,
                      new_opportunities = length stored_opportunities,
                      top_opportunities = take 5 stored_opportunities,
                      strategic_recommendations = recs,
                      competitive_positioning = cp,
                      risk_assessment = ra,
                      action_plan = ap\<rparr>)))))), w7)))"

definition synthesis_body :: "env \<Rightarrow> world \<Rightarrow> (exn + SynthesisReport) \<times> world" where
  "synthesis_body env w =
     (let ((strategic_analysis, new_opps), w6) = synthesis_fetch env w
      in synthesis_process env strategic_analysis new_opps w6)"

definition generate_strategic_analysis :: "env \<Rightarrow> world \<Rightarrow> SynthesisReport stage_result \<times> world" where
  "generate_strategic_analysis env w = catch_stage (synthesis_body env w)"

definition generate_executive_briefing :: "env \<Rightarrow> world \<Rightarrow> Briefing stage_result \<times> world" where
  "generate_executive_briefing env w =
     (let (analysis_summary', w1) = get_analysis_summary env 30 w;
          (top, w2) = get_opportunities env (Some (7 / 10)) 5 w1;
          (critical_trends, w3) = get_trends env None (Some (7 / 10)) 5 w2;
          (recent_threats, w4) = get_competitor_updates env None 10 w3;
          (reply, w5) =
             llm_invoke env (BriefingPrompt analysis_summary' top critical_trends recent_threats) w4
      in catch_stage
           (and_then reply (\<lambda>content.
              Inr \<lparr>briefing_content = content,
                   src_opportunities = length top,
                   src_trends = length critical_trends,
                   src_competitive_updates = length recent_threats\<rparr>), w5))"

definition assess_opportunity_portfolio :: "env \<Rightarrow> world \<Rightarrow> Portfolio stage_result \<times> world" where
  "assess_opportunity_portfolio env w =
     (let (all_opportunities, w1) = get_opportunities env None 50 w;
          (reply, w2) = llm_invoke env (PortfolioPrompt all_opportunities) w1
      in catch_stage
           (and_then reply (\<lambda>content.
              Inr \<lparr>portfolio_size = length all_opportunities, portfolio_analysis = content\<rparr>), w2))"

section \<open>crew/crew.py\<close>

record Summary =
  sum_findings_count :: nat
  sum_competitor_updates :: nat
  sum_trends_identified :: nat
  sum_opportunities_count :: nat

text \<open>
  The dict \<^verbatim>\<open>run_daily_analysis\<close> returns. A key that one of its two shapes lacks is
  an optional field.
\<close>

record RunReport =
  analysis_date :: "int option"
  status :: string
  run_error :: "string option"
  market_intelligence :: "MarketReport stage_result option"
  competitor_intelligence :: "CompetitorReport stage_result option"
  trend_analysis :: "TrendReport stage_result option"
  strategic_synthesis :: "SynthesisReport stage_result option"
  summary :: "Summary option"

text \<open>
  \<^verbatim>\<open>_identify_critical_alerts\<close>: the two alert dicts, the two lists read from the results
  with \<^verbatim>\<open>.get\<close>, and the two loops.
\<close>

definition threat_alert :: "Threat \<Rightarrow> Alert" where
  "threat_alert threat =
     \<lparr>al_title = ''Critical Competitive Threat: '' @ th_company threat,
      al_description = th_threat threat,
      al_impact_level = Priority_value (th_impact threat),
      al_source = ''Competitive Intelligence'',
      recommended_action = ''Review competitive response strategy immediately''\<rparr>"

definition opportunity_alert :: "Opportunity \<Rightarrow> Alert" where
  "opportunity_alert opp =
     \<lparr>al_title = ''High-Value Opportunity: '' @ op_title opp,
      al_description = op_description opp,
      al_impact_level = ''high'',
      al_source = ''Strategic Analysis'',
      recommended_action = ''Evaluate opportunity for immediate action''\<rparr>"

definition results_critical_threats :: "RunReport \<Rightarrow> Threat list" where
  "results_critical_threats results =
     (case competitor_intelligence results of
        Some (Ok competitor_results) \<Rightarrow> critical_threats competitor_results
      | _ \<Rightarrow> [])"

definition results_top_opportunities :: "RunReport \<Rightarrow> Opportunity list" where
  "results_top_opportunities results =
     (case strategic_synthesis results of
        Some (Ok strategic_results) \<Rightarrow> top_opportunities strategic_results
      | _ \<Rightarrow> [])"

fun threat_alerts :: "Threat list \<Rightarrow> Alert list \<Rightarrow> Alert list" where
  "threat_alerts [] alerts = alerts"
| "threat_alerts (threat # rest) alerts =
     (if th_impact threat \<in> {HIGH, CRITICAL}
      then threat_alerts rest (alerts @ [threat_alert threat])
      else threat_alerts rest alerts)"

fun opportunity_alerts :: "Opportunity list \<Rightarrow> Alert list \<Rightarrow> Alert list" where
  "opportunity_alerts [] alerts = alerts"
| "opportunity_alerts (opp # rest) alerts =
     (if score opp > 9 / 10 \<and> priority opp = HIGH
      then opportunity_alerts rest (alerts @ [opportunity_alert opp])
      else opportunity_alerts rest alerts)"

definition identify_critical_alerts :: "RunReport \<Rightarrow> Alert list" where
  "identify_critical_alerts results =
     opportunity_alerts (results_top_opportunities results)
       (threat_alerts (results_critical_threats results) [])"

text \<open>
  \<^verbatim>\<open>_store_analysis_run\<close>: the \<^verbatim>\<open>AnalysisRun\<close> is built from the results and inserted;
  an exception of either step is caught and printed.
\<close>

definition synthesis_get :: "RunReport \<Rightarrow> (SynthesisReport \<Rightarrow> json) \<Rightarrow> json \<Rightarrow> json" where
  "synthesis_get results key dflt =
     (case strategic_synthesis results of Some (Ok strategic_results) \<Rightarrow> key strategic_results | _ \<Rightarrow> dflt)"

definition make_analysis_run :: "env \<Rightarrow> RunReport \<Rightarrow> exn + AnalysisRun" where
  "make_analysis_run env results =
     (case summary results of
        None \<Rightarrow> Inl KeyError
      | Some sm \<Rightarrow>
          and_then (dict_field (lax_dict env) (synthesis_get results strategic_recommendations (JArr []))) (\<lambda>recs.
            Inr \<lparr>run_date = today env,
                 ar_findings_count = sum_findings_count sm,
                 opportunities_identified = sum_opportunities_count sm,
                 ar_key_insights = Some (py_str env (synthesis_get results strategic_insights (JArr []))),
                 ar_recommendations = recs,
                 ar_status = status results\<rparr>))"

definition store_analysis_run :: "env \<Rightarrow> RunReport \<Rightarrow> world \<Rightarrow> world" where
  "store_analysis_run env results w =
     (case make_analysis_run env results of
        Inl e \<Rightarrow> w
      | Inr analysis_run \<Rightarrow> snd (insert_analysis_run env analysis_run w))"

text \<open>The notifier: every call is recorded in the outbox; the answer says whether it delivered.\<close>

definition send_critical_alert :: "env \<Rightarrow> Alert \<Rightarrow> world \<Rightarrow> bool \<times> world" where
  "send_critical_alert env alert w =
     (mail_ok env (tick w), next_tick (w\<lparr>outbox := outbox w @ [CriticalAlertMail alert]\<rparr>))"

definition send_daily_report :: "env \<Rightarrow> ReportData \<Rightarrow> world \<Rightarrow> bool \<times> world" where
  "send_daily_report env report_data w =
     (mail_ok env (tick w), next_tick (w\<lparr>outbox := outbox w @ [DailyReportMail report_data]\<rparr>))"

definition send_weekly_summary :: "env \<Rightarrow> SummaryData \<Rightarrow> world \<Rightarrow> bool \<times> world" where
  "send_weekly_summary env summary_data w =
     (mail_ok env (tick w), next_tick (w\<lparr>outbox := outbox w @ [WeeklySummaryMail summary_data]\<rparr>))"

fun send_alerts :: "env \<Rightarrow> Alert list \<Rightarrow> world \<Rightarrow> world" where
  "send_alerts env [] w = w"
| "send_alerts env (alert # rest) w = send_alerts env rest (snd (send_critical_alert env alert w))"

definition send_daily_notifications :: "env \<Rightarrow> RunReport \<Rightarrow> world \<Rightarrow> world" where
  "send_daily_notifications env results w =
     (case summary results of
        None \<Rightarrow> w
      | Some sm \<Rightarrow>
          (let report_data =
                 \<lparr>rd_executive_summary =
                    synthesis_get results s_executive_summary (JStr ''Daily analysis completed''),
                  rd_findings_count = sum_findings_count sm,
                  rd_opportunities_count = sum_opportunities_count sm,
                  rd_competitor_updates = sum_competitor_updates sm,
                  rd_trends_identified = sum_trends_identified sm,
                  rd_top_opportunities = results_top_opportunities results,
                  rd_key_insights = synthesis_get results strategic_insights (JArr []),
                  rd_recommendations = synthesis_get results strategic_recommendations (JArr []),
                  rd_critical_alerts = None\<rparr>;
               critical_alerts = identify_critical_alerts results
           in if critical_alerts \<noteq> []
              then snd (send_daily_report env (report_data\<lparr>rd_critical_alerts := Some critical_alerts\<rparr>)
                          (send_alerts env critical_alerts w))
              else snd (send_daily_report env report_data w)))"

text \<open>
  \<^verbatim>\<open>run_daily_analysis\<close>. A stage is an operation on the world that returns a stage
  result or raises. \<^verbatim>\<open>asyncio.gather\<close> starts the three stage coroutines in the order
  written; none of them suspends before it is done (the completion, search and database
  calls block), so they run one after the other, and an exception of one stage does not
  stop the others: it is raised in \<^verbatim>\<open>run_daily_analysis\<close> once all three are done. The
  run is split at its one suspension point, the \<^verbatim>\<open>await\<close> of the gathered stages.
\<close>

type_synonym 'a stage = "world \<Rightarrow> (exn + 'a stage_result) \<times> world"

definition error_results :: "env \<Rightarrow> exn \<Rightarrow> RunReport" where
  "error_results env e =
     \<lparr>analysis_date = Some (today env), status = ''error'', run_error = Some (str_exn e),
      market_intelligence = None, competitor_intelligence = None, trend_analysis = None,
      strategic_synthesis = None, summary = None\<rparr>"

definition gather ::
  "'a stage \<Rightarrow> 'b stage \<Rightarrow> 'c stage \<Rightarrow> world
     \<Rightarrow> (exn + 'a stage_result \<times> 'b stage_result \<times> 'c stage_result) \<times> world" where
  "gather market competitor trend w =
     (let (m, w1) = market w;
          (c, w2) = competitor w1;
          (t, w3) = trend w2
      in (and_then m (\<lambda>market_results.
          and_then c (\<lambda>competitor_results.
          and_then t (\<lambda>trend_results.
            Inr (market_results, competitor_results, trend_results)))), w3))"

definition market_findings_count :: "MarketReport stage_result \<Rightarrow> nat" where
  "market_findings_count market_results =
     (case market_results of Ok r \<Rightarrow> findings_count r | Failed e \<Rightarrow> 0)"

text \<open>The dict \<^verbatim>\<open>analysis_results\<close> that is compiled from the four stage results.\<close>

definition completed_results ::
  "env \<Rightarrow> MarketReport stage_result \<Rightarrow> CompetitorReport stage_result \<Rightarrow> TrendReport stage_result
     \<Rightarrow> SynthesisReport stage_result \<Rightarrow> RunReport" where
  "completed_results env market_results competitor_results trend_results strategic_results =
     \<lparr>analysis_date = Some (today env),
      status = ''completed'',
      run_error = None,
      market_intelligence = Some market_results,
      competitor_intelligence = Some competitor_results,
      trend_analysis = Some trend_results,
      strategic_synthesis = Some strategic_results,
      summary = Some
        \<lparr>sum_findings_count = market_findings_count market_results,
         sum_competitor_updates =
           (case competitor_results of Ok r \<Rightarrow> length (competitor_analyses r) | Failed e \<Rightarrow> 0),
         sum_trends_identified =
           (case trend_results of Ok r \<Rightarrow> trends_identified r | Failed e \<Rightarrow> 0),
         sum_opportunities_count =
           (case strategic_results of Ok r \<Rightarrow> new_opportunities r | Failed e \<Rightarrow> 0)\<rparr>\<rparr>"

definition daily_finish ::
  "env \<Rightarrow> SynthesisReport stage
     \<Rightarrow> (exn + MarketReport stage_result \<times> CompetitorReport stage_result \<times> TrendReport stage_result) \<times> world
     \<Rightarrow> RunReport \<times> world" where
  "daily_finish env synthesis gathered =
     (case gathered of
        (Inl e, w3) \<Rightarrow> (error_results env e, w3)
      | (Inr (market_results, competitor_results, trend_results), w3) \<Rightarrow>
          (case synthesis w3 of
             (Inl e, w4) \<Rightarrow> (error_results env e, w4)
           | (Inr strategic_results, w4) \<Rightarrow>
               (let analysis_results =
                      completed_results env market_results competitor_results trend_results
                        strategic_results
                in (analysis_results,
                    send_daily_notifications env analysis_results
                      (store_analysis_run env analysis_results w4)))))"

definition run_daily_analysis_with ::
  "env \<Rightarrow> MarketReport stage \<Rightarrow> CompetitorReport stage \<Rightarrow> TrendReport stage \<Rightarrow> SynthesisReport stage
     \<Rightarrow> world \<Rightarrow> RunReport \<times> world" where
  "run_daily_analysis_with env market competitor trend synthesis w =
     daily_finish env synthesis (gather market competitor trend w)"

text \<open>The stages of the repository return their result; none of them raises.\<close>

definition returns :: "(world \<Rightarrow> 'a \<times> world) \<Rightarrow> world \<Rightarrow> (exn + 'a) \<times> world" where
  "returns f w = (let (r, w') = f w in (Inr r, w'))"

definition run_daily_analysis :: "env \<Rightarrow> world \<Rightarrow> RunReport \<times> world" where
  "run_daily_analysis env =
     run_daily_analysis_with env
       (returns (gather_market_intelligence env))
       (returns (monitor_competitors env))
       (returns (analyze_market_trends env))
       (returns (generate_strategic_analysis env))"

text \<open>\<^verbatim>\<open>run_weekly_summary\<close> and \<^verbatim>\<open>run_quick_analysis\<close>; no step of their \<^verbatim>\<open>try\<close> blocks raises.\<close>

definition run_weekly_summary :: "env \<Rightarrow> world \<Rightarrow> SummaryData stage_result \<times> world" where
  "run_weekly_summary env w =
     (let (weekly_summary, w1) = get_analysis_summary env 7 w;
          (briefing, w2) = generate_executive_briefing env w1;
          (portfolio, w3) = assess_opportunity_portfolio env w2;
          summary_data = \<lparr>sd_summary = weekly_summary, executive_briefing = briefing,
                          portfolio_assessment = portfolio\<rparr>;
          (success, w4) = send_weekly_summary env summary_data w3
      in (Ok summary_data, w4))"

record QuickResult =
  topic :: string
  market_analysis :: "string stage_result"
  trend_convergence :: "string stage_result"


section \<open>crew/main.py\<close>

text \<open>
  The three wrappers call an operation of the crew inside \<^verbatim>\<open>try ... except Exception\<close>
  and return its result, or \<^verbatim>\<open>{"status": "error", "error": str(e)}\<close>. The crew's
  operation is a parameter, so that the wrappers are also defined for an operation that
  raises.
\<close>

datatype 'a cli_result = Returned 'a | WrapperError string

definition main_run_daily_analysis ::
  "env \<Rightarrow> (world \<Rightarrow> (exn + RunReport) \<times> world) \<Rightarrow> world \<Rightarrow> RunReport \<times> world" where
  "main_run_daily_analysis env crew_daily w =
     (let (test_summary, w1) = get_analysis_summary env 1 w;
          (r, w2) = crew_daily w1
      in (case r of
            Inr results \<Rightarrow> (results, w2)
          | Inl e \<Rightarrow>
              (\<lparr>analysis_date = None, status = ''error'', run_error = Some (str_exn e),
                market_intelligence = None, competitor_intelligence = None, trend_analysis = None,
                strategic_synthesis = None, summary = None\<rparr>, w2)))"

definition main_wrapper :: "(world \<Rightarrow> (exn + 'a) \<times> world) \<Rightarrow> world \<Rightarrow> 'a cli_result \<times> world" where
  "main_wrapper crew_op w =
     (let (r, w1) = crew_op w
      in (case r of Inr results \<Rightarrow> (Returned results, w1) | Inl e \<Rightarrow> (WrapperError (str_exn e), w1)))"

text \<open>
  \<^verbatim>\<open>str.lower()\<close> on the characters a \<open>char\<close> can stand for (the capital letters of ASCII
  and of Latin-1), and \<^verbatim>\<open>" ".join(...)\<close>.
\<close>

definition lower_char :: "char \<Rightarrow> char" where
  "lower_char c =
     (if ((65::nat) \<le> of_char c \<and> of_char c \<le> (90::nat))
          \<or> ((192::nat) \<le> of_char c \<and> of_char c \<le> (222::nat) \<and> of_char c \<noteq> (215::nat))
      then char_of (of_char c + (32::nat)) else c)"

definition py_lower :: "string \<Rightarrow> string" where
  "py_lower s = map lower_char s"

fun join_spaces :: "string list \<Rightarrow> string" where
  "join_spaces [] = []"
| "join_spaces [x] = x"
| "join_spaces (x # y # rest) = x @ '' '' @ join_spaces (y # rest)"

text \<open>
  The function \<^verbatim>\<open>main()\<close>: it runs the wrapper of the command, drops the result of
  \<^verbatim>\<open>asyncio.run(...)\<close> and returns. The wrappers catch every exception, so none leaves
  \<^verbatim>\<open>main()\<close>: its outcome is \<open>Inr ()\<close> on every path.
\<close>

definition main ::
  "env \<Rightarrow> (world \<Rightarrow> (exn + RunReport) \<times> world)
     \<Rightarrow> (world \<Rightarrow> (exn + SummaryData stage_result) \<times> world)
     \<Rightarrow> (string \<Rightarrow> world \<Rightarrow> (exn + QuickResult stage_result) \<times> world)
     \<Rightarrow> string list \<Rightarrow> world \<Rightarrow> (exn + unit) \<times> world" where
  "main env crew_daily crew_weekly crew_quick argv w =
     (if length argv < 2 then (Inr (), w)
      else if py_lower (argv ! 1) = ''daily''
        then (Inr (), snd (main_run_daily_analysis env crew_daily w))
      else if py_lower (argv ! 1) = ''weekly''
        then (Inr (), snd (main_wrapper crew_weekly w))
      else if py_lower (argv ! 1) = ''quick'' \<and> length argv > 2
        then (Inr (), snd (main_wrapper (crew_quick (join_spaces (drop 2 argv))) w))
      else (Inr (), w))"




section \<open>Concrete collaborators\<close>

text \<open>
  A setting in which the completion service is unreachable and the replies cannot be
  parsed, the searches return nothing, the database and the notifier work, and pydantic
  rejects every value of a wrong type; and the empty Result Store. In the settings of
  this development \<open>py_str\<close> is only ever applied to the empty list.
\<close>

definition quiet_env :: env where
  "quiet_env =
     \<lparr>llm = (\<lambda>n p. Inl (ServiceError ''unreachable'')),
      loads = (\<lambda>s. Inl JSONDecodeError),
      search = (\<lambda>n q k t ty. []),
      db_up = (\<lambda>n. True),
      mail_ok = (\<lambda>n. True),
      today = 0,
      competitors = [''OpenAI'', ''Anthropic'', ''Google AI''],
      parse_float = float_of_string,
      lax_str = (\<lambda>v. None),
      lax_dict = (\<lambda>v. None),
      py_str = str_plain\<rparr>"

definition empty_world :: world where
  "empty_world =
     \<lparr>market_findings = [], competitor_updates = [], opportunities = [], trends = [],
      analysis_runs = [], tick = 0, outbox = []\<rparr>"

text \<open>A stage, or an operation of the crew, that raises.\<close>

definition raising :: "exn \<Rightarrow> world \<Rightarrow> (exn + 'a) \<times> world" where
  "raising e w = (Inl e, w)"

text \<open>The five tables of the Result Store.\<close>

definition tables ::
  "world \<Rightarrow> MarketFinding list \<times> CompetitorUpdate list \<times> Opportunity list \<times> Trend list \<times> AnalysisRun list" where
  "tables w = (market_findings w, competitor_updates w, opportunities w, trends w, analysis_runs w)"

text \<open>The values of the results that are not exceptions, in order.\<close>

fun rights :: "('e + 'a) list \<Rightarrow> 'a list" where
  "rights [] = []"
| "rights (Inl e # rs) = rights rs"
| "rights (Inr x # rs) = x # rights rs"

text \<open>\<^verbatim>\<open>float(item.get(key, 0.0))\<close>: the score-like field of an item as the stages read it.\<close>

definition item_score :: "env \<Rightarrow> string \<Rightarrow> json \<Rightarrow> exn + real" where
  "item_score env key item = and_then (dict_get item key (JNum 0)) (py_float (parse_float env))"

text \<open>
  A completion service that answers the Market stage with seven findings, five valid and
  two of relevance 1.4.
\<close>

definition good_finding :: json where
  "good_finding = JObj [(''title'', JStr ''Funding round''), (''summary'', JStr ''A round''),
     (''content'', JStr ''Details''), (''category'', JStr ''funding''), (''relevance_score'', JNum (8 / 10))]"

definition bad_finding :: json where
  "bad_finding = JObj [(''title'', JStr ''Hype''), (''summary'', JStr ''Too good''),
     (''content'', JStr ''Details''), (''category'', JStr ''funding''), (''relevance_score'', JNum (14 / 10))]"

definition seven_findings :: "json list" where
  "seven_findings = [good_finding, good_finding, bad_finding, good_finding, good_finding, bad_finding, good_finding]"

definition market_env :: env where
  "market_env = quiet_env
     \<lparr>llm := (\<lambda>n p. case p of MarketPrompt a b c \<Rightarrow> Inr ''M'' | _ \<Rightarrow> Inl (ServiceError ''unreachable'')),
      loads := (\<lambda>s. if s = ''M'' then Inr (JObj [(''findings'', JArr seven_findings)]) else Inl JSONDecodeError)\<rparr>"

text \<open>A finding whose title and summary are longer than the model allows.\<close>

definition long_finding :: json where
  "long_finding = JObj [(''title'', JStr (replicate 600 CHR ''x'')), (''summary'', JStr (replicate 2500 CHR ''y'')),
     (''content'', JStr ''Details''), (''category'', JStr ''technology''), (''relevance_score'', JNum (1 / 2))]"

text \<open>Everything in the world but one table: what the stage that fills this table leaves alone.\<close>

definition beside_findings ::
  "world \<Rightarrow> CompetitorUpdate list \<times> Opportunity list \<times> Trend list \<times> AnalysisRun list \<times> mail list" where
  "beside_findings w = (competitor_updates w, opportunities w, trends w, analysis_runs w, outbox w)"

definition beside_updates ::
  "world \<Rightarrow> MarketFinding list \<times> Opportunity list \<times> Trend list \<times> AnalysisRun list \<times> mail list" where
  "beside_updates w = (market_findings w, opportunities w, trends w, analysis_runs w, outbox w)"

definition beside_trends ::
  "world \<Rightarrow> MarketFinding list \<times> CompetitorUpdate list \<times> Opportunity list \<times> AnalysisRun list \<times> mail list" where
  "beside_trends w = (market_findings w, competitor_updates w, opportunities w, analysis_runs w, outbox w)"

definition beside_opportunities ::
  "world \<Rightarrow> MarketFinding list \<times> CompetitorUpdate list \<times> Trend list \<times> AnalysisRun list \<times> mail list" where
  "beside_opportunities w = (market_findings w, competitor_updates w, trends w, analysis_runs w, outbox w)"

section \<open>The Alert Evaluator of the specification\<close>




section \<open>Six opportunities, and a store that is read\<close>

text \<open>A completion service that proposes six opportunities of score 0.95 and priority high.\<close>

definition hot_opportunity :: json where
  "hot_opportunity = JObj [(''title'', JStr ''Agent platform''), (''description'', JStr ''Build it''),
     (''market_gap'', JStr ''None serves it''), (''score'', JNum (95 / 100)), (''priority'', JStr ''high'')]"





section \<open>Two runs of one day\<close>

text \<open>
  \<open>daily_stages\<close> is \<^verbatim>\<open>run_daily_analysis\<close> up to its \<^verbatim>\<open>await\<close> of the gathered stages,
  \<open>daily_finish\<close> the rest. Two runs started together on one event loop are interleaved
  at that point: the stages of the first, the stages of the second, the rest of the
  first, the rest of the second. The source keeps no state between runs and no marker
  of a run in progress.
\<close>

definition daily_stages ::
  "env \<Rightarrow> world \<Rightarrow> (exn + MarketReport stage_result \<times> CompetitorReport stage_result \<times> TrendReport stage_result) \<times> world" where
  "daily_stages env =
     gather (returns (gather_market_intelligence env)) (returns (monitor_competitors env))
       (returns (analyze_market_trends env))"

definition two_runs_in_sequence :: "env \<Rightarrow> world \<Rightarrow> (RunReport \<times> RunReport) \<times> world" where
  "two_runs_in_sequence env w =
     (let (report_a, wa) = run_daily_analysis env w;
          (report_b, wb) = run_daily_analysis env wa
      in ((report_a, report_b), wb))"

definition two_runs_interleaved :: "env \<Rightarrow> world \<Rightarrow> (RunReport \<times> RunReport) \<times> world" where
  "two_runs_interleaved env w =
     (let (gathered_a, w1) = daily_stages env w;
          (gathered_b, w2) = daily_stages env w1;
          (report_a, w3) = daily_finish env (returns (generate_strategic_analysis env)) (gathered_a, w2);
          (report_b, w4) = daily_finish env (returns (generate_strategic_analysis env)) (gathered_b, w3)
      in ((report_a, report_b), w4))"

section \<open>Collaborators for the run record\<close>

text \<open>
  A completion service that answers only the synthesis prompt, with recommendations
  given as an object; and one that answers the Market stage with the seven findings
  and the landscape prompt with a JSON list, on which \<^verbatim>\<open>monitor_competitors\<close> raises
  inside its \<^verbatim>\<open>try\<close> block.
\<close>

definition guardless_env :: env where
  "guardless_env = quiet_env
     \<lparr>llm := (\<lambda>n p. case p of SynthesisPrompt fs us ts os \<Rightarrow> Inr ''S'' | _ \<Rightarrow> Inl (ServiceError ''unreachable'')),
      loads := (\<lambda>s. if s = ''S'' then Inr (JObj [(''recommendations'', JObj [])]) else Inl JSONDecodeError)\<rparr>"


text \<open>
  A completion service that answers the synthesis prompt as above and the opportunity
  prompt with one opportunity of score 0.95 and priority high.
\<close>

definition alerting_env :: env where
  "alerting_env = quiet_env
     \<lparr>llm := (\<lambda>n p. case p of
                 SynthesisPrompt fs us ts os \<Rightarrow> Inr ''S''
               | OpportunityPrompt a \<Rightarrow> Inr ''O''
               | _ \<Rightarrow> Inl (ServiceError ''unreachable'')),
      loads := (\<lambda>s. if s = ''S'' then Inr (JObj [(''recommendations'', JObj [])])
                      else if s = ''O'' then Inr (JObj [(''opportunities'', JArr [hot_opportunity])])
                      else Inl JSONDecodeError)\<rparr>"

text \<open>The alerts and the daily reports among the calls of the notifier, in order.\<close>

definition alerts_sent :: "world \<Rightarrow> Alert list" where
  "alerts_sent w = concat (map (\<lambda>m. case m of CriticalAlertMail a \<Rightarrow> [a] | _ \<Rightarrow> []) (outbox w))"

definition reports_sent :: "world \<Rightarrow> ReportData list" where
  "reports_sent w = concat (map (\<lambda>m. case m of DailyReportMail r \<Rightarrow> [r] | _ \<Rightarrow> []) (outbox w))"

text \<open>The row a run stores in the first of these settings.\<close>

definition guardless_row :: AnalysisRun where
  "guardless_row = \<lparr>run_date = 0, ar_findings_count = 0, opportunities_identified = 0,
     ar_key_insights = Some ''[]'', ar_recommendations = [], ar_status = ''completed''\<rparr>"

section \<open>Verified properties\<close>

subsection \<open>The alert loops\<close>

lemma threat_alerts_eq:
  "threat_alerts ts alerts =
     alerts @ map threat_alert (filter (\<lambda>t. th_impact t \<in> {HIGH, CRITICAL}) ts)"
  by (induction ts arbitrary: alerts) auto

lemma opportunity_alerts_eq:
  "opportunity_alerts os alerts =
     alerts @ map opportunity_alert (filter (\<lambda>opp. score opp > 9 / 10 \<and> priority opp = HIGH) os)"
  by (induction os arbitrary: alerts) auto

text \<open>
  Claim C6. A run report whose status is \<open>error\<close>, whose critical threats hold no entry
  of impact high or critical and whose top opportunities hold no entry with a score
  above 0.9 and priority high, gets no alert: the status alone raises none.
\<close>

theorem error_status_alone_raises_no_alert:
  assumes "status results = ''error''"
    and "\<forall>t \<in> set (results_critical_threats results). th_impact t \<notin> {HIGH, CRITICAL}"
    and "\<forall>opp \<in> set (results_top_opportunities results). \<not> (score opp > 9 / 10 \<and> priority opp = HIGH)"
  shows "identify_critical_alerts results = []"
proof -
  have "filter (\<lambda>t. th_impact t \<in> {HIGH, CRITICAL}) (results_critical_threats results) = []"
    using assms(2) by (simp add: filter_empty_conv)
  moreover have "filter (\<lambda>opp. score opp > 9 / 10 \<and> priority opp = HIGH)
                   (results_top_opportunities results) = []"
    using assms(3) by (simp add: filter_empty_conv)
  ultimately show ?thesis
    by (simp add: identify_critical_alerts_def threat_alerts_eq opportunity_alerts_eq)
qed

text \<open>The report \<^verbatim>\<open>run_daily_analysis\<close> returns from its \<^verbatim>\<open>except\<close> branch is such a report.\<close>

theorem error_status_alone_raises_no_alert_witness:
  "status (error_results quiet_env TypeError) = ''error''
   \<and> identify_critical_alerts (error_results quiet_env TypeError) = []"
proof -
  have s: "status (error_results quiet_env TypeError) = ''error''"
    by (simp add: error_results_def)
  have t: "results_critical_threats (error_results quiet_env TypeError) = []"
    by (simp add: error_results_def results_critical_threats_def)
  have u: "results_top_opportunities (error_results quiet_env TypeError) = []"
    by (simp add: error_results_def results_top_opportunities_def)
  show ?thesis
    using error_status_alone_raises_no_alert [OF s] t u s by simp
qed

subsection \<open>What leaves the Result Store unchanged\<close>

lemma next_tick_fields [simp]:
  "market_findings (next_tick w) = market_findings w"
  "competitor_updates (next_tick w) = competitor_updates w"
  "opportunities (next_tick w) = opportunities w"
  "trends (next_tick w) = trends w"
  "analysis_runs (next_tick w) = analysis_runs w"
  "outbox (next_tick w) = outbox w"
  "tick (next_tick w) = Suc (tick w)"
  by (simp_all add: next_tick_def)

lemma tables_next_tick [simp]: "tables (next_tick w) = tables w"
  by (simp add: tables_def)

text \<open>A query, a search and a completion call only count as one more interaction.\<close>

lemma get_market_findings_snd [simp]: "snd (get_market_findings env l c s w) = next_tick w"
  by (simp add: get_market_findings_def)

lemma get_competitor_updates_snd [simp]: "snd (get_competitor_updates env c l w) = next_tick w"
  by (simp add: get_competitor_updates_def)

lemma get_opportunities_snd [simp]: "snd (get_opportunities env m l w) = next_tick w"
  by (simp add: get_opportunities_def)

lemma get_trends_snd [simp]: "snd (get_trends env c m l w) = next_tick w"
  by (simp add: get_trends_def)

lemma llm_invoke_snd [simp]: "snd (llm_invoke env p w) = next_tick w"
  by (simp add: llm_invoke_def)

lemma llm_json_snd [simp]: "snd (llm_json env p w) = next_tick w"
  by (simp add: llm_json_def case_prod_beta)

lemma serper_run_snd [simp]: "snd (serper_run env q k t ty w) = next_tick w"
  by (simp add: serper_run_def)

lemma catch_stage_snd [simp]: "snd (catch_stage r) = snd r"
  by (simp add: catch_stage_def split: prod.splits sum.splits)

lemma get_latest_snd [simp]: "snd (get_latest_findings_by_category env w) = next_tick w"
  by (simp add: get_latest_findings_by_category_def case_prod_beta)

lemma get_analysis_summary_snd:
  "snd (get_analysis_summary env d w) = next_tick (next_tick (next_tick (next_tick (next_tick w))))"
  by (simp add: get_analysis_summary_def case_prod_beta Let_def)

lemma generate_executive_briefing_frame:
  "tables (snd (generate_executive_briefing env w)) = tables w
   \<and> outbox (snd (generate_executive_briefing env w)) = outbox w"
  by (simp add: generate_executive_briefing_def case_prod_beta Let_def get_analysis_summary_snd)

lemma assess_opportunity_portfolio_frame:
  "tables (snd (assess_opportunity_portfolio env w)) = tables w
   \<and> outbox (snd (assess_opportunity_portfolio env w)) = outbox w"
  by (simp add: assess_opportunity_portfolio_def case_prod_beta Let_def)

lemma send_weekly_summary_frame:
  "tables (snd (send_weekly_summary env sd w)) = tables w
   \<and> outbox (snd (send_weekly_summary env sd w)) = outbox w @ [WeeklySummaryMail sd]"
  by (simp add: send_weekly_summary_def tables_def)

text \<open>
  Claim C10. \<^verbatim>\<open>run_weekly_summary\<close> leaves the five tables of the Result Store as they
  were and hands one weekly digest to the notifier.
\<close>

theorem weekly_summary_writes_nothing:
  "market_findings (snd (run_weekly_summary env w)) = market_findings w
   \<and> competitor_updates (snd (run_weekly_summary env w)) = competitor_updates w
   \<and> opportunities (snd (run_weekly_summary env w)) = opportunities w
   \<and> trends (snd (run_weekly_summary env w)) = trends w
   \<and> analysis_runs (snd (run_weekly_summary env w)) = analysis_runs w
   \<and> (\<exists>digest. outbox (snd (run_weekly_summary env w)) = outbox w @ [WeeklySummaryMail digest])"
proof -
  have "tables (snd (run_weekly_summary env w)) = tables w
        \<and> (\<exists>digest. outbox (snd (run_weekly_summary env w)) = outbox w @ [WeeklySummaryMail digest])"
    by (simp add: run_weekly_summary_def case_prod_beta Let_def send_weekly_summary_frame
        assess_opportunity_portfolio_frame generate_executive_briefing_frame
        get_analysis_summary_snd)
  then show ?thesis
    by (simp add: tables_def)
qed

subsection \<open>Items, loops and stages\<close>

lemma and_then_Inr_iff: "and_then r k = Inr y \<longleftrightarrow> (\<exists>x. r = Inr x \<and> k x = Inr y)"
  by (cases r) (auto simp: and_then_def)

lemma str_field_bound: "str_field lax (Some n) v = Inr s \<Longrightarrow> length s \<le> n"
  by (auto simp: str_field_def split: option.splits if_splits)

lemma unit_float_field_Inr: "unit_float_field r = Inr x \<longleftrightarrow> x = r \<and> 0 \<le> r \<and> r \<le> 1"
  by (auto simp: unit_float_field_def)

lemma make_market_finding_Inr:
  assumes "make_market_finding env item = Inr f"
  shows "item_score env ''relevance_score'' item = Inr (relevance_score f)"
    and "0 \<le> relevance_score f" and "relevance_score f \<le> 1"
    and "length (mf_title f) \<le> 500" and "length (mf_summary f) \<le> 2000"
  using assms
  by (auto simp: make_market_finding_def MarketFinding_init_def and_then_Inr_iff item_score_def
      unit_float_field_Inr dest: str_field_bound)

lemma store_findings_appends:
  "\<exists>new. fst (store_findings env items st w) = st @ new
     \<and> market_findings (snd (store_findings env items st w)) = market_findings w @ new
     \<and> set new \<subseteq> set (rights (map (make_market_finding env) items))"
proof (induction items arbitrary: st w)
  case Nil
  then show ?case by simp
next
  case (Cons item items)
  show ?case
  proof (cases "make_market_finding env item")
    case (Inl e)
    then show ?thesis using Cons.IH[of st w] by simp
  next
    case (Inr f)
    show ?thesis
    proof (cases "db_up env (tick w)")
      case True
      then show ?thesis
        using Inr Cons.IH[of "st @ [f]" "next_tick (w\<lparr>market_findings := market_findings w @ [f]\<rparr>)"]
        by (auto simp: insert_market_finding_def)
    next
      case False
      then show ?thesis
        using Inr Cons.IH[of st "next_tick w"]
        by (auto simp: insert_market_finding_def)
    qed
  qed
qed

lemma store_findings_up:
  assumes "\<forall>n. db_up env n"
  shows "fst (store_findings env items st w) = st @ rights (map (make_market_finding env) items)
     \<and> market_findings (snd (store_findings env items st w)) = market_findings w @ rights (map (make_market_finding env) items)"
proof (induction items arbitrary: st w)
  case Nil
  then show ?case by simp
next
  case (Cons item items)
  show ?case
  proof (cases "make_market_finding env item")
    case (Inl e)
    then show ?thesis using Cons.IH[of st w] by simp
  next
    case (Inr f)
    then show ?thesis
      using assms Cons.IH[of "st @ [f]" "next_tick (w\<lparr>market_findings := market_findings w @ [f]\<rparr>)"]
      by (simp add: insert_market_finding_def)
  qed
qed


lemma store_opportunities_appends:
  "\<exists>new. fst (store_opportunities env items st w) = st @ new
     \<and> opportunities (snd (store_opportunities env items st w)) = opportunities w @ new
     \<and> set new \<subseteq> set (rights (map (make_opportunity env) items))"
proof (induction items arbitrary: st w)
  case Nil
  then show ?case by simp
next
  case (Cons item items)
  show ?case
  proof (cases "make_opportunity env item")
    case (Inl e)
    then show ?thesis using Cons.IH[of st w] by simp
  next
    case (Inr f)
    show ?thesis
    proof (cases "db_up env (tick w)")
      case True
      then show ?thesis
        using Inr Cons.IH[of "st @ [f]" "next_tick (w\<lparr>opportunities := opportunities w @ [f]\<rparr>)"]
        by (auto simp: insert_opportunity_def)
    next
      case False
      then show ?thesis
        using Inr Cons.IH[of st "next_tick w"]
        by (auto simp: insert_opportunity_def)
    qed
  qed
qed

lemma store_opportunities_up:
  assumes "\<forall>n. db_up env n"
  shows "fst (store_opportunities env items st w) = st @ rights (map (make_opportunity env) items)
     \<and> opportunities (snd (store_opportunities env items st w)) = opportunities w @ rights (map (make_opportunity env) items)"
proof (induction items arbitrary: st w)
  case Nil
  then show ?case by simp
next
  case (Cons item items)
  show ?case
  proof (cases "make_opportunity env item")
    case (Inl e)
    then show ?thesis using Cons.IH[of st w] by simp
  next
    case (Inr f)
    then show ?thesis
      using assms Cons.IH[of "st @ [f]" "next_tick (w\<lparr>opportunities := opportunities w @ [f]\<rparr>)"]
      by (simp add: insert_opportunity_def)
  qed
qed

lemma store_trends_appends:
  "\<exists>new. fst (store_trends env items st w) = st @ new
     \<and> trends (snd (store_trends env items st w)) = trends w @ new
     \<and> set new \<subseteq> set (rights (map (make_trend env) items))"
proof (induction items arbitrary: st w)
  case Nil
  then show ?case by simp
next
  case (Cons item items)
  show ?case
  proof (cases "make_trend env item")
    case (Inl e)
    then show ?thesis using Cons.IH[of st w] by simp
  next
    case (Inr f)
    show ?thesis
    proof (cases "db_up env (tick w)")
      case True
      then show ?thesis
        using Inr Cons.IH[of "st @ [f]" "next_tick (w\<lparr>trends := trends w @ [f]\<rparr>)"]
        by (auto simp: insert_trend_def)
    next
      case False
      then show ?thesis
        using Inr Cons.IH[of st "next_tick w"]
        by (auto simp: insert_trend_def)
    qed
  qed
qed

lemma store_trends_up:
  assumes "\<forall>n. db_up env n"
  shows "fst (store_trends env items st w) = st @ rights (map (make_trend env) items)
     \<and> trends (snd (store_trends env items st w)) = trends w @ rights (map (make_trend env) items)"
proof (induction items arbitrary: st w)
  case Nil
  then show ?case by simp
next
  case (Cons item items)
  show ?case
  proof (cases "make_trend env item")
    case (Inl e)
    then show ?thesis using Cons.IH[of st w] by simp
  next
    case (Inr f)
    then show ?thesis
      using assms Cons.IH[of "st @ [f]" "next_tick (w\<lparr>trends := trends w @ [f]\<rparr>)"]
      by (simp add: insert_trend_def)
  qed
qed

lemma make_opportunity_Inr:
  assumes "make_opportunity env item = Inr f"
  shows "item_score env ''score'' item = Inr (score f)"
    and "0 \<le> score f" and "score f \<le> 1"
    and "length (op_title f) \<le> 255"
  using assms
  by (auto simp: make_opportunity_def Opportunity_init_def and_then_Inr_iff item_score_def
      unit_float_field_Inr dest: str_field_bound)

lemma make_trend_Inr:
  assumes "make_trend env item = Inr f"
  shows "item_score env ''momentum_score'' item = Inr (momentum_score f)"
    and "0 \<le> momentum_score f" and "momentum_score f \<le> 1"
    and "length (trend_name f) \<le> 255"
  using assms
  by (auto simp: make_trend_def Trend_init_def and_then_Inr_iff item_score_def
      unit_float_field_Inr dest: str_field_bound)

lemma market_process_up:
  assumes "\<forall>n. db_up env n" and "map_of kvs ''findings'' = Some (JArr items)"
  shows "\<exists>r w'. market_process env (JObj kvs) w = (Inr r, w')
     \<and> findings r = rights (map (make_market_finding env) items)
     \<and> findings_count r = length (findings r)
     \<and> market_findings w' = market_findings w @ findings r"
  using assms store_findings_up[OF assms(1), of items "[]" w]
  by (simp add: market_process_def and_then_def case_prod_beta)

lemma trend_process_up:
  assumes "\<forall>n. db_up env n" and "map_of kvs ''trends'' = Some (JArr items)"
  shows "\<exists>r w'. trend_process env (JObj kvs) w = (Inr r, w')
     \<and> key_trends r = rights (map (make_trend env) items)
     \<and> trends_identified r = length (key_trends r)
     \<and> trends w' = trends w @ key_trends r"
  using assms store_trends_up[OF assms(1), of items "[]" w]
  by (simp add: trend_process_def and_then_def case_prod_beta)

lemma synthesis_process_up:
  assumes "\<forall>n. db_up env n"
  shows "\<exists>r w'. synthesis_process env (JObj kvs) (JArr items) w = (Inr r, w')
     \<and> top_opportunities r = take 5 (rights (map (make_opportunity env) items))
     \<and> new_opportunities r = length (rights (map (make_opportunity env) items))
     \<and> opportunities w' = opportunities w @ rights (map (make_opportunity env) items)"
  using assms store_opportunities_up[OF assms(1), of items "[]" w]
  by (simp add: synthesis_process_def and_then_def case_prod_beta)

lemma market_fetch_tables: "tables (snd (market_fetch env w)) = tables w"
  by (simp add: market_fetch_def case_prod_beta search_ai_news_def)

lemma llm_json_world: "llm_json env p w = (r, w') \<Longrightarrow> w' = next_tick w"
  using llm_json_snd[of env p w] by simp

lemma search_ai_news_snd [simp]: "snd (search_ai_news env d w) = next_tick w"
  by (simp add: search_ai_news_def)

lemma search_competitor_updates_snd [simp]: "snd (search_competitor_updates env c d w) = next_tick w"
  by (simp add: search_competitor_updates_def)

lemma search_current_trends_snd [simp]:
  "snd (search_current_trends env w) = next_tick (next_tick (next_tick (next_tick w)))"
  by (simp add: search_current_trends_def case_prod_beta)

lemma analyze_trend_patterns_snd [simp]: "snd (analyze_trend_patterns env hf ho ct w) = next_tick w"
  by (auto simp: analyze_trend_patterns_def split: prod.splits sum.splits dest: llm_json_world)

lemma analyze_competitor_updates_snd [simp]: "snd (analyze_competitor_updates env c r w) = next_tick w"
  by (auto simp: analyze_competitor_updates_def split: prod.splits sum.splits dest: llm_json_world)

lemma analyze_competitive_landscape_snd [simp]: "snd (analyze_competitive_landscape env a w) = next_tick w"
  by (auto simp: analyze_competitive_landscape_def split: prod.splits sum.splits dest: llm_json_world)

lemma synthesize_intelligence_snd [simp]: "snd (synthesize_intelligence env f u t o' w) = next_tick w"
  by (auto simp: synthesize_intelligence_def split: prod.splits sum.splits dest: llm_json_world)

lemma identify_opportunities_snd [simp]: "snd (identify_opportunities env a w) = next_tick w"
  by (auto simp: identify_opportunities_def split: prod.splits sum.splits dest: llm_json_world)

lemma synthesis_reads_snd [simp]:
  "snd (synthesis_reads env w) = next_tick (next_tick (next_tick (next_tick w)))"
  by (simp add: synthesis_reads_def case_prod_beta)

lemma market_fetch_snd [simp]:
  "snd (market_fetch env w) = next_tick (next_tick (next_tick (next_tick w)))"
  by (simp add: market_fetch_def case_prod_beta)

lemma trend_fetch_snd [simp]:
  "snd (trend_fetch env w) = next_tick (next_tick (next_tick (next_tick (next_tick (next_tick (next_tick w))))))"
  by (simp add: trend_fetch_def case_prod_beta)

lemma synthesis_fetch_snd [simp]:
  "snd (synthesis_fetch env w) = next_tick (next_tick (next_tick (next_tick (next_tick (next_tick w)))))"
  by (simp add: synthesis_fetch_def case_prod_beta)

lemma fetched_world:
  "market_fetch env w = (x, w4) \<Longrightarrow> tables w4 = tables w"
  "trend_fetch env w = (y, w4) \<Longrightarrow> tables w4 = tables w"
  "synthesis_fetch env w = (z, w4) \<Longrightarrow> tables w4 = tables w"
proof -
  show "market_fetch env w = (x, w4) \<Longrightarrow> tables w4 = tables w"
    using market_fetch_snd[of env w] by simp
  show "trend_fetch env w = (y, w4) \<Longrightarrow> tables w4 = tables w"
    using trend_fetch_snd[of env w] by simp
  show "synthesis_fetch env w = (z, w4) \<Longrightarrow> tables w4 = tables w"
    using synthesis_fetch_snd[of env w] by simp
qed

text \<open>
  Claim C4. An item whose score-like field (\<^verbatim>\<open>relevance_score\<close>, \<^verbatim>\<open>score\<close>,
  \<^verbatim>\<open>momentum_score\<close>) reads as a number outside \<open>[0, 1]\<close> is rejected by the model's
  constructor, so the loop skips it; an item that is accepted keeps the score it came
  with (nothing is clamped); and the stage still succeeds: with a database that accepts
  the inserts it stores and counts exactly the items that construct, in their order.
\<close>

theorem out_of_range_scores_are_skipped:
  "(item_score env ''relevance_score'' item = Inr r \<and> (r < 0 \<or> 1 < r) \<longrightarrow> isl (make_market_finding env item))
 \<and> (item_score env ''score'' item = Inr r \<and> (r < 0 \<or> 1 < r) \<longrightarrow> isl (make_opportunity env item))
 \<and> (item_score env ''momentum_score'' item = Inr r \<and> (r < 0 \<or> 1 < r) \<longrightarrow> isl (make_trend env item))
 \<and> (make_market_finding env item = Inr mf \<longrightarrow> item_score env ''relevance_score'' item = Inr (relevance_score mf))
 \<and> (make_opportunity env item = Inr opp \<longrightarrow> item_score env ''score'' item = Inr (score opp))
 \<and> (make_trend env item = Inr tr \<longrightarrow> item_score env ''momentum_score'' item = Inr (momentum_score tr))
 \<and> ((\<forall>n. db_up env n) \<and> market_fetch env w = (Inr (JObj kvs), w4) \<and> map_of kvs ''findings'' = Some (JArr items) \<longrightarrow>
      (\<exists>rep w'. gather_market_intelligence env w = (Ok rep, w')
         \<and> findings rep = rights (map (make_market_finding env) items)
         \<and> findings_count rep = length (rights (map (make_market_finding env) items))
         \<and> market_findings w' = market_findings w @ rights (map (make_market_finding env) items)))
 \<and> ((\<forall>n. db_up env n) \<and> trend_fetch env w = (JObj kvs, w4) \<and> map_of kvs ''trends'' = Some (JArr items) \<longrightarrow>
      (\<exists>rep w'. analyze_market_trends env w = (Ok rep, w')
         \<and> key_trends rep = rights (map (make_trend env) items)
         \<and> trends_identified rep = length (rights (map (make_trend env) items))
         \<and> trends w' = trends w @ rights (map (make_trend env) items)))
 \<and> ((\<forall>n. db_up env n) \<and> synthesis_fetch env w = ((JObj kvs, JArr items), w4) \<longrightarrow>
      (\<exists>rep w'. generate_strategic_analysis env w = (Ok rep, w')
         \<and> new_opportunities rep = length (rights (map (make_opportunity env) items))
         \<and> opportunities w' = opportunities w @ rights (map (make_opportunity env) items)))"
proof -
  have a: "item_score env ''relevance_score'' item = Inr r \<and> (r < 0 \<or> 1 < r) \<longrightarrow> isl (make_market_finding env item)"
    using make_market_finding_Inr(1,2,3)[of env item] by (cases "make_market_finding env item") auto
  have b: "item_score env ''score'' item = Inr r \<and> (r < 0 \<or> 1 < r) \<longrightarrow> isl (make_opportunity env item)"
    using make_opportunity_Inr(1,2,3)[of env item] by (cases "make_opportunity env item") auto
  have c: "item_score env ''momentum_score'' item = Inr r \<and> (r < 0 \<or> 1 < r) \<longrightarrow> isl (make_trend env item)"
    using make_trend_Inr(1,2,3)[of env item] by (cases "make_trend env item") auto
  have d: "(\<forall>n. db_up env n) \<and> market_fetch env w = (Inr (JObj kvs), w4) \<and> map_of kvs ''findings'' = Some (JArr items) \<longrightarrow>
      (\<exists>rep w'. gather_market_intelligence env w = (Ok rep, w')
         \<and> findings rep = rights (map (make_market_finding env) items)
         \<and> findings_count rep = length (rights (map (make_market_finding env) items))
         \<and> market_findings w' = market_findings w @ rights (map (make_market_finding env) items))"
  proof (intro impI, elim conjE)
    assume up: "\<forall>n. db_up env n" and f: "market_fetch env w = (Inr (JObj kvs), w4)"
      and k: "map_of kvs ''findings'' = Some (JArr items)"
    have "market_findings w4 = market_findings w"
      using fetched_world(1)[OF f] by (simp add: tables_def)
    then show "\<exists>rep w'. gather_market_intelligence env w = (Ok rep, w')
         \<and> findings rep = rights (map (make_market_finding env) items)
         \<and> findings_count rep = length (rights (map (make_market_finding env) items))
         \<and> market_findings w' = market_findings w @ rights (map (make_market_finding env) items)"
      using market_process_up[OF up k, of w4] f
      by (auto simp: gather_market_intelligence_def market_body_def catch_stage_def)
  qed
  have e: "(\<forall>n. db_up env n) \<and> trend_fetch env w = (JObj kvs, w4) \<and> map_of kvs ''trends'' = Some (JArr items) \<longrightarrow>
      (\<exists>rep w'. analyze_market_trends env w = (Ok rep, w')
         \<and> key_trends rep = rights (map (make_trend env) items)
         \<and> trends_identified rep = length (rights (map (make_trend env) items))
         \<and> trends w' = trends w @ rights (map (make_trend env) items))"
  proof (intro impI, elim conjE)
    assume up: "\<forall>n. db_up env n" and f: "trend_fetch env w = (JObj kvs, w4)"
      and k: "map_of kvs ''trends'' = Some (JArr items)"
    have "trends w4 = trends w"
      using fetched_world(2)[OF f] by (simp add: tables_def)
    then show "\<exists>rep w'. analyze_market_trends env w = (Ok rep, w')
         \<and> key_trends rep = rights (map (make_trend env) items)
         \<and> trends_identified rep = length (rights (map (make_trend env) items))
         \<and> trends w' = trends w @ rights (map (make_trend env) items)"
      using trend_process_up[OF up k, of w4] f
      by (auto simp: analyze_market_trends_def trend_body_def catch_stage_def)
  qed
  have g: "(\<forall>n. db_up env n) \<and> synthesis_fetch env w = ((JObj kvs, JArr items), w4) \<longrightarrow>
      (\<exists>rep w'. generate_strategic_analysis env w = (Ok rep, w')
         \<and> new_opportunities rep = length (rights (map (make_opportunity env) items))
         \<and> opportunities w' = opportunities w @ rights (map (make_opportunity env) items))"
  proof (intro impI, elim conjE)
    assume up: "\<forall>n. db_up env n" and f: "synthesis_fetch env w = ((JObj kvs, JArr items), w4)"
    have "opportunities w4 = opportunities w"
      using fetched_world(3)[OF f] by (simp add: tables_def)
    then show "\<exists>rep w'. generate_strategic_analysis env w = (Ok rep, w')
         \<and> new_opportunities rep = length (rights (map (make_opportunity env) items))
         \<and> opportunities w' = opportunities w @ rights (map (make_opportunity env) items)"
      using synthesis_process_up[OF up, of kvs items w4] f
      by (auto simp: generate_strategic_analysis_def synthesis_body_def catch_stage_def)
  qed
  show ?thesis
    using a b c d e g make_market_finding_Inr(1) make_opportunity_Inr(1) make_trend_Inr(1)
    by blast
qed

lemma good_finding_ok: "make_market_finding market_env good_finding =
   Inr \<lparr>mf_date = 0, mf_category = FUNDING, mf_title = ''Funding round'', mf_summary = ''A round'',
        mf_content = ''Details'', relevance_score = 8 / 10, mf_source_url = None\<rparr>"
  by (simp add: make_market_finding_def MarketFinding_init_def and_then_def good_finding_def
      market_env_def quiet_env_def str_field_def unit_float_field_def opt_str_field_def)

lemma bad_finding_score: "item_score market_env ''relevance_score'' bad_finding = Inr (14 / 10)"
  by (simp add: item_score_def bad_finding_def and_then_def)

lemma market_env_fetch: "market_fetch market_env empty_world =
   (Inr (JObj [(''findings'', JArr seven_findings)]), next_tick (next_tick (next_tick (next_tick empty_world))))"
  by (simp add: market_fetch_def case_prod_beta search_ai_news_def serper_run_def llm_json_def llm_invoke_def
      market_env_def quiet_env_def and_then_def)

text \<open>
  Five valid findings and two of relevance 1.4: the stage succeeds with
  \<open>findings_count = 5\<close> and five rows stored.
\<close>

theorem out_of_range_scores_are_skipped_witness:
  "(\<exists>rep w'. gather_market_intelligence market_env empty_world = (Ok rep, w')
      \<and> findings_count rep = 5 \<and> length (market_findings w') = 5)
   \<and> isl (make_market_finding market_env bad_finding)"
proof -
  have up: "\<forall>n. db_up market_env n" by (simp add: market_env_def quiet_env_def)
  have k: "map_of [(''findings'', JArr seven_findings)] ''findings'' = Some (JArr seven_findings)" by simp
  have bad: "isl (make_market_finding market_env bad_finding)"
    using out_of_range_scores_are_skipped [of market_env bad_finding "14 / 10"] bad_finding_score by simp
  then obtain e where e: "make_market_finding market_env bad_finding = Inl e"
    by (cases "make_market_finding market_env bad_finding") auto
  have n: "length (rights (map (make_market_finding market_env) seven_findings)) = 5"
    by (simp add: seven_findings_def good_finding_ok e)
  have "\<exists>rep w'. gather_market_intelligence market_env empty_world = (Ok rep, w')
         \<and> findings rep = rights (map (make_market_finding market_env) seven_findings)
         \<and> findings_count rep = length (rights (map (make_market_finding market_env) seven_findings))
         \<and> market_findings w' = market_findings empty_world @ rights (map (make_market_finding market_env) seven_findings)"
    using out_of_range_scores_are_skipped [of market_env _ _ _ _ _ empty_world "[(''findings'', JArr seven_findings)]" _ seven_findings] up market_env_fetch k
    by blast
  then show ?thesis using n bad by (auto simp: empty_world_def)
qed

subsection \<open>Text fields\<close>

lemma str_field_take: "str_field lax (Some n) (JStr (take n s)) = Inr (take n s)"
  by (simp add: str_field_def)

lemma make_market_finding_title:
  "make_market_finding env (JObj kvs) = Inr mf \<Longrightarrow> map_of kvs ''title'' = Some (JStr t) \<Longrightarrow> mf_title mf = take 500 t"
  by (auto simp: make_market_finding_def MarketFinding_init_def and_then_Inr_iff str_field_take)

lemma make_market_finding_summary:
  "make_market_finding env (JObj kvs) = Inr mf \<Longrightarrow> map_of kvs ''summary'' = Some (JStr t) \<Longrightarrow> mf_summary mf = take 2000 t"
  by (auto simp: make_market_finding_def MarketFinding_init_def and_then_Inr_iff str_field_take)

lemma make_opportunity_title:
  "make_opportunity env (JObj kvs) = Inr opp \<Longrightarrow> map_of kvs ''title'' = Some (JStr t) \<Longrightarrow> op_title opp = take 255 t"
  by (auto simp: make_opportunity_def Opportunity_init_def and_then_Inr_iff str_field_take)

lemma make_trend_name:
  "make_trend env (JObj kvs) = Inr tr \<Longrightarrow> map_of kvs ''trend_name'' = Some (JStr t) \<Longrightarrow> trend_name tr = take 255 t"
  by (auto simp: make_trend_def Trend_init_def and_then_Inr_iff str_field_take)

lemma isl_and_then: "isl (and_then r k) \<longleftrightarrow> (case r of Inl e \<Rightarrow> True | Inr x \<Rightarrow> isl (k x))"
  by (cases r) (simp_all add: and_then_def)

lemma market_title_any_length:
  "isl (make_market_finding env (JObj (AList.update ''title'' (JStr t) kvs)))
   = isl (make_market_finding env (JObj (AList.update ''title'' (JStr t') kvs)))"
  by (simp add: make_market_finding_def MarketFinding_init_def isl_and_then update_conv' str_field_take
      split: sum.splits)

lemma market_summary_any_length:
  "isl (make_market_finding env (JObj (AList.update ''summary'' (JStr t) kvs)))
   = isl (make_market_finding env (JObj (AList.update ''summary'' (JStr t') kvs)))"
  by (simp add: make_market_finding_def MarketFinding_init_def isl_and_then update_conv' str_field_take
      split: sum.splits)

lemma opportunity_title_any_length:
  "isl (make_opportunity env (JObj (AList.update ''title'' (JStr t) kvs)))
   = isl (make_opportunity env (JObj (AList.update ''title'' (JStr t') kvs)))"
  by (simp add: make_opportunity_def Opportunity_init_def isl_and_then update_conv' str_field_take
      split: sum.splits)

lemma trend_name_any_length:
  "isl (make_trend env (JObj (AList.update ''trend_name'' (JStr t) kvs)))
   = isl (make_trend env (JObj (AList.update ''trend_name'' (JStr t') kvs)))"
  by (simp add: make_trend_def Trend_init_def isl_and_then update_conv' str_field_take
      split: sum.splits)

text \<open>
  Claim C9. A constructed \<^verbatim>\<open>MarketFinding\<close>, \<^verbatim>\<open>Opportunity\<close> or \<^verbatim>\<open>Trend\<close> satisfies the
  length bounds; a text field that arrives as a string is cut to the bound; and whether
  an item is accepted does not depend on the string in that field, so an over-length
  text never costs an item.
\<close>

theorem text_fields_truncated_not_rejected:
  "(make_market_finding env item = Inr mf \<longrightarrow> length (mf_title mf) \<le> 500 \<and> length (mf_summary mf) \<le> 2000)
 \<and> (make_opportunity env item = Inr opp \<longrightarrow> length (op_title opp) \<le> 255)
 \<and> (make_trend env item = Inr tr \<longrightarrow> length (trend_name tr) \<le> 255)
 \<and> (make_market_finding env (JObj kvs) = Inr mf \<and> map_of kvs ''title'' = Some (JStr t) \<longrightarrow> mf_title mf = take 500 t)
 \<and> (make_market_finding env (JObj kvs) = Inr mf \<and> map_of kvs ''summary'' = Some (JStr t) \<longrightarrow> mf_summary mf = take 2000 t)
 \<and> (make_opportunity env (JObj kvs) = Inr opp \<and> map_of kvs ''title'' = Some (JStr t) \<longrightarrow> op_title opp = take 255 t)
 \<and> (make_trend env (JObj kvs) = Inr tr \<and> map_of kvs ''trend_name'' = Some (JStr t) \<longrightarrow> trend_name tr = take 255 t)
 \<and> isl (make_market_finding env (JObj (AList.update ''title'' (JStr t) kvs)))
     = isl (make_market_finding env (JObj (AList.update ''title'' (JStr t') kvs)))
 \<and> isl (make_market_finding env (JObj (AList.update ''summary'' (JStr t) kvs)))
     = isl (make_market_finding env (JObj (AList.update ''summary'' (JStr t') kvs)))
 \<and> isl (make_opportunity env (JObj (AList.update ''title'' (JStr t) kvs)))
     = isl (make_opportunity env (JObj (AList.update ''title'' (JStr t') kvs)))
 \<and> isl (make_trend env (JObj (AList.update ''trend_name'' (JStr t) kvs)))
     = isl (make_trend env (JObj (AList.update ''trend_name'' (JStr t') kvs)))"
  using make_market_finding_Inr(4,5)[of env item mf] make_opportunity_Inr(4)[of env item opp]
    make_trend_Inr(4)[of env item tr]
    make_market_finding_title[of env kvs mf t] make_market_finding_summary[of env kvs mf t]
    make_opportunity_title[of env kvs opp t] make_trend_name[of env kvs tr t]
    market_title_any_length[of env t kvs t'] market_summary_any_length[of env t kvs t']
    opportunity_title_any_length[of env t kvs t'] trend_name_any_length[of env t kvs t']
  by blast

lemma long_finding_ok: "make_market_finding quiet_env long_finding =
   Inr \<lparr>mf_date = 0, mf_category = TECHNOLOGY, mf_title = replicate 500 CHR ''x'', mf_summary = replicate 2000 CHR ''y'',
        mf_content = ''Details'', relevance_score = 1 / 2, mf_source_url = None\<rparr>"
  by (simp add: make_market_finding_def MarketFinding_init_def and_then_def long_finding_def
      quiet_env_def str_field_def unit_float_field_def opt_str_field_def)

text \<open>A title of 600 and a summary of 2500 characters are stored cut to 500 and 2000.\<close>

theorem text_fields_truncated_not_rejected_witness:
  "make_market_finding quiet_env long_finding =
     Inr \<lparr>mf_date = 0, mf_category = TECHNOLOGY, mf_title = replicate 500 CHR ''x'',
          mf_summary = replicate 2000 CHR ''y'', mf_content = ''Details'', relevance_score = 1 / 2,
          mf_source_url = None\<rparr>
   \<and> length (replicate 500 CHR ''x'') \<le> (500::nat) \<and> length (replicate 2000 CHR ''y'') \<le> (2000::nat)"
  using text_fields_truncated_not_rejected [of quiet_env long_finding "\<lparr>mf_date = 0, mf_category = TECHNOLOGY, mf_title = replicate 500 CHR ''x'',
          mf_summary = replicate 2000 CHR ''y'', mf_content = ''Details'', relevance_score = 1 / 2,
          mf_source_url = None\<rparr>"] long_finding_ok
  by simp

subsection \<open>A completion service that fails\<close>
















subsection \<open>What the stages store\<close>

lemma beside_next_tick [simp]:
  "beside_findings (next_tick w) = beside_findings w"
  "beside_updates (next_tick w) = beside_updates w"
  "beside_trends (next_tick w) = beside_trends w"
  "beside_opportunities (next_tick w) = beside_opportunities w"
  by (simp_all add: beside_findings_def beside_updates_def beside_trends_def beside_opportunities_def)

lemma store_findings_beside: "beside_findings (snd (store_findings env items st w)) = beside_findings w"
proof (induction items arbitrary: st w)
  case Nil
  then show ?case by simp
next
  case (Cons item items)
  then show ?case
    by (auto simp: insert_market_finding_def beside_findings_def next_tick_def split: sum.splits)
qed

lemma store_updates_beside: "beside_updates (snd (store_updates env c items st w)) = beside_updates w"
proof (induction items arbitrary: st w)
  case Nil
  then show ?case by simp
next
  case (Cons item items)
  then show ?case
    by (auto simp: insert_competitor_update_def beside_updates_def next_tick_def split: sum.splits)
qed

lemma store_trends_beside: "beside_trends (snd (store_trends env items st w)) = beside_trends w"
proof (induction items arbitrary: st w)
  case Nil
  then show ?case by simp
next
  case (Cons item items)
  then show ?case
    by (auto simp: insert_trend_def beside_trends_def next_tick_def split: sum.splits)
qed

lemma store_opportunities_beside:
  "beside_opportunities (snd (store_opportunities env items st w)) = beside_opportunities w"
proof (induction items arbitrary: st w)
  case Nil
  then show ?case by simp
next
  case (Cons item items)
  then show ?case
    by (auto simp: insert_opportunity_def beside_opportunities_def next_tick_def split: sum.splits)
qed

lemma store_updates_appends:
  "\<exists>new. fst (store_updates env c items st w) = st @ new
     \<and> competitor_updates (snd (store_updates env c items st w)) = competitor_updates w @ new"
proof (induction items arbitrary: st w)
  case Nil
  then show ?case by simp
next
  case (Cons item items)
  show ?case
  proof (cases "make_competitor_update env c item")
    case (Inl e)
    then show ?thesis using Cons.IH[of st w] by simp
  next
    case (Inr f)
    show ?thesis
    proof (cases "db_up env (tick w)")
      case True
      then show ?thesis
        using Inr Cons.IH[of "st @ [f]" "next_tick (w\<lparr>competitor_updates := competitor_updates w @ [f]\<rparr>)"]
        by (auto simp: insert_competitor_update_def)
    next
      case False
      then show ?thesis
        using Inr Cons.IH[of st "next_tick w"]
        by (auto simp: insert_competitor_update_def)
    qed
  qed
qed

text \<open>What each stage does to the store.\<close>

lemma market_stage_effect:
  "\<exists>new. market_findings (snd (gather_market_intelligence env w)) = market_findings w @ new
     \<and> beside_findings (snd (gather_market_intelligence env w)) = beside_findings w
     \<and> market_findings_count (fst (gather_market_intelligence env w)) \<le> length new"
proof (cases "market_fetch env w")
  case (Pair parsed w4)
  then have w4: "w4 = next_tick (next_tick (next_tick (next_tick w)))"
    using market_fetch_snd[of env w] by simp
  show ?thesis
  proof (cases parsed)
    case (Inl e)
    then show ?thesis using Pair w4
      by (simp add: gather_market_intelligence_def market_body_def catch_stage_def market_findings_count_def)
  next
    case (Inr analysis)
    show ?thesis
    proof (cases "and_then (dict_get analysis ''findings'' (JArr [])) py_iter")
      case (Inl e)
      then show ?thesis using Pair w4 Inr
        by (simp add: gather_market_intelligence_def market_body_def market_process_def catch_stage_def
            market_findings_count_def)
    next
      case items: (Inr items)
      obtain new where new: "fst (store_findings env items [] w4) = [] @ new"
        "market_findings (snd (store_findings env items [] w4)) = market_findings w4 @ new"
        using store_findings_appends[of env items "[]" w4] by blast
      have "beside_findings (snd (store_findings env items [] w4)) = beside_findings w"
        using store_findings_beside[of env items "[]" w4] w4 by simp
      then show ?thesis using Pair w4 Inr items new
        by (auto simp: gather_market_intelligence_def market_body_def market_process_def catch_stage_def
            market_findings_count_def case_prod_beta and_then_def split: sum.splits)
    qed
  qed
qed


lemma store_opportunities_appends':
  "\<exists>new. fst (store_opportunities env items st w) = st @ new
     \<and> opportunities (snd (store_opportunities env items st w)) = opportunities w @ new"
  using store_opportunities_appends[of env items st w] by blast

lemma monitor_loop_effect:
  "\<exists>new. competitor_updates (snd (monitor_loop env cs au an w)) = competitor_updates w @ new
     \<and> beside_updates (snd (monitor_loop env cs au an w)) = beside_updates w
     \<and> (\<forall>au' an'. fst (monitor_loop env cs au an w) = Inr (au', an') \<longrightarrow> au' = au @ new)"
proof (induction cs arbitrary: au an w)
  case Nil
  then show ?case by simp
next
  case (Cons c cs)
  show ?case
  proof (cases "py_strip c = []")
    case True
    then show ?thesis using Cons.IH[of au an w] by simp
  next
    case False
    define w1 where "w1 = next_tick w"
    define updates where "updates = fst (search_competitor_updates env (py_strip c) 30 w)"
    define analysis where "analysis = fst (analyze_competitor_updates env (py_strip c) updates w1)"
    define w2 where "w2 = next_tick w1"
    have step: "monitor_loop env (c # cs) au an w =
      (case and_then (dict_get analysis ''updates'' (JArr [])) py_iter of
         Inl e \<Rightarrow> (Inl e, w2)
       | Inr items \<Rightarrow>
           monitor_loop env cs (fst (store_updates env (py_strip c) items au w2))
             (AList.update (py_strip c) analysis an) (snd (store_updates env (py_strip c) items au w2)))"
      using False
      by (simp add: case_prod_beta w1_def w2_def updates_def analysis_def split: sum.splits)
    show ?thesis
    proof (cases "and_then (dict_get analysis ''updates'' (JArr [])) py_iter")
      case (Inl e)
      then show ?thesis using step by (simp add: w2_def w1_def)
    next
      case (Inr items)
      obtain new1 where new1: "fst (store_updates env (py_strip c) items au w2) = au @ new1"
        "competitor_updates (snd (store_updates env (py_strip c) items au w2)) = competitor_updates w2 @ new1"
        using store_updates_appends[of env "py_strip c" items au w2] by blast
      define w3 where "w3 = snd (store_updates env (py_strip c) items au w2)"
      have b3: "beside_updates w3 = beside_updates w"
        using store_updates_beside[of env "py_strip c" items au w2] by (simp add: w3_def w2_def w1_def)
      obtain new2 where new2:
        "competitor_updates (snd (monitor_loop env cs (au @ new1) (AList.update (py_strip c) analysis an) w3))
           = competitor_updates w3 @ new2"
        "beside_updates (snd (monitor_loop env cs (au @ new1) (AList.update (py_strip c) analysis an) w3))
           = beside_updates w3"
        "\<forall>au' an'. fst (monitor_loop env cs (au @ new1) (AList.update (py_strip c) analysis an) w3) = Inr (au', an')
           \<longrightarrow> au' = (au @ new1) @ new2"
        using Cons.IH[of "au @ new1" "AList.update (py_strip c) analysis an" w3] by blast
      have "monitor_loop env (c # cs) au an w =
          monitor_loop env cs (au @ new1) (AList.update (py_strip c) analysis an) w3"
        using step Inr new1(1) by (simp add: w3_def)
      moreover have "competitor_updates w3 = competitor_updates w @ new1"
        using new1(2) by (simp add: w3_def w2_def w1_def)
      ultimately show ?thesis
        using new2 b3 by (intro exI[of _ "new1 @ new2"]) simp
    qed
  qed
qed


lemma competitor_stage_effect:
  "\<exists>new. competitor_updates (snd (monitor_competitors env w)) = competitor_updates w @ new
     \<and> beside_updates (snd (monitor_competitors env w)) = beside_updates w
     \<and> (\<forall>rep. fst (monitor_competitors env w) = Ok rep \<longrightarrow>
           critical_threats rep = identify_critical_threats new \<and> updates_found rep = length new)"
proof -
  obtain new where new:
    "competitor_updates (snd (monitor_loop env (competitors env) [] [] w)) = competitor_updates w @ new"
    "beside_updates (snd (monitor_loop env (competitors env) [] [] w)) = beside_updates w"
    "\<forall>au' an'. fst (monitor_loop env (competitors env) [] [] w) = Inr (au', an') \<longrightarrow> au' = [] @ new"
    using monitor_loop_effect[of env "competitors env" "[]" "[]" w] by blast
  show ?thesis
  proof (cases "monitor_loop env (competitors env) [] [] w")
    case (Pair r w1)
    show ?thesis
    proof (cases r)
      case (Inl e)
      then show ?thesis using Pair new
        by (intro exI[of _ new]) (simp add: monitor_competitors_def competitor_body_def catch_stage_def)
    next
      case (Inr p)
      obtain au' an' where p: "p = (au', an')" by (cases p)
      then have "au' = new" using new(3) Pair Inr by simp
      then show ?thesis using Pair Inr p new(1,2)
        by (intro exI[of _ new])
          (auto simp: monitor_competitors_def competitor_body_def catch_stage_def case_prod_beta
            and_then_def split: sum.splits)
    qed
  qed
qed

lemma trend_stage_effect:
  "beside_trends (snd (analyze_market_trends env w)) = beside_trends w"
proof -
  have "beside_trends (snd (trend_process env a w4)) = beside_trends w4" for a w4
    using store_trends_beside[of env _ "[]" w4]
    by (auto simp: trend_process_def case_prod_beta split: sum.splits)
  then have "beside_trends (snd (trend_process env (fst (trend_fetch env w)) (snd (trend_fetch env w)))) = beside_trends w"
    by simp
  then show ?thesis
    by (simp add: analyze_market_trends_def trend_body_def case_prod_beta)
qed

lemma synthesis_stage_effect:
  "\<exists>new. opportunities (snd (generate_strategic_analysis env w)) = opportunities w @ new
     \<and> beside_opportunities (snd (generate_strategic_analysis env w)) = beside_opportunities w
     \<and> (\<forall>rep. fst (generate_strategic_analysis env w) = Ok rep \<longrightarrow>
           top_opportunities rep = take 5 new \<and> new_opportunities rep = length new)"
proof -
  define sa where "sa = fst (fst (synthesis_fetch env w))"
  define no where "no = snd (fst (synthesis_fetch env w))"
  define w6 where "w6 = snd (synthesis_fetch env w)"
  have body: "synthesis_body env w = synthesis_process env sa no w6"
    by (simp add: synthesis_body_def case_prod_beta sa_def no_def w6_def)
  have w6: "opportunities w6 = opportunities w" "beside_opportunities w6 = beside_opportunities w"
    by (simp_all add: w6_def)
  show ?thesis
  proof (cases "py_iter no")
    case (Inl e)
    then show ?thesis using body w6
      by (intro exI[of _ "[]"]) (simp add: generate_strategic_analysis_def synthesis_process_def catch_stage_def)
  next
    case (Inr items)
    obtain new where new: "fst (store_opportunities env items [] w6) = [] @ new"
      "opportunities (snd (store_opportunities env items [] w6)) = opportunities w6 @ new"
      using store_opportunities_appends'[of env items "[]" w6] by blast
    have "beside_opportunities (snd (store_opportunities env items [] w6)) = beside_opportunities w"
      using store_opportunities_beside[of env items "[]" w6] w6 by simp
    then show ?thesis using body w6 Inr new
      by (intro exI[of _ new])
        (auto simp: generate_strategic_analysis_def synthesis_process_def catch_stage_def case_prod_beta
          and_then_def split: sum.splits)
  qed
qed

subsection \<open>The daily run\<close>

lemmas run_defs = run_daily_analysis_def run_daily_analysis_with_def gather_def returns_def daily_finish_def
  completed_results_def
  gather_market_intelligence_def market_body_def market_fetch_def market_process_def catch_stage_def
  monitor_competitors_def competitor_body_def analyze_competitor_updates_def analyze_competitive_landscape_def
  identify_critical_threats_def analyze_market_trends_def trend_body_def trend_fetch_def trend_process_def
  analyze_trend_patterns_def search_current_trends_def generate_strategic_analysis_def synthesis_body_def
  synthesis_fetch_def synthesis_process_def synthesis_reads_def synthesize_intelligence_def identify_opportunities_def
  make_opportunity_def Opportunity_init_def make_market_finding_def MarketFinding_init_def
  str_field_def opt_str_field_def unit_float_field_def dict_field_def
  insert_opportunity_def insert_market_finding_def
  get_market_findings_def get_competitor_updates_def get_trends_def get_opportunities_def
  llm_json_def llm_invoke_def serper_run_def search_ai_news_def search_competitor_updates_def
  store_analysis_run_def make_analysis_run_def synthesis_get_def insert_analysis_run_def
  send_daily_notifications_def send_daily_report_def send_critical_alert_def identify_critical_alerts_def
  results_critical_threats_def results_top_opportunities_def market_findings_count_def
  and_then_def next_tick_def py_strip_def is_space_def raising_def

lemma send_alerts_tables: "tables (send_alerts env as w) = tables w"
  by (induction as arbitrary: w) (simp_all add: send_critical_alert_def tables_def)

lemma send_daily_notifications_tables: "tables (send_daily_notifications env r w) = tables w"
proof -
  have "tables (snd (send_daily_report env d w')) = tables w'" for d w'
    by (simp add: send_daily_report_def tables_def)
  then show ?thesis
    by (simp add: send_daily_notifications_def Let_def send_alerts_tables split: option.splits)
qed

lemma store_analysis_run_effect:
  "market_findings (store_analysis_run env r w) = market_findings w"
  "competitor_updates (store_analysis_run env r w) = competitor_updates w"
  "opportunities (store_analysis_run env r w) = opportunities w"
  "trends (store_analysis_run env r w) = trends w"
  "outbox (store_analysis_run env r w) = outbox w"
  "analysis_runs (store_analysis_run env r w) =
     analysis_runs w @ (case make_analysis_run env r of
                          Inr run \<Rightarrow> if db_up env (tick w) then [run] else []
                        | Inl e \<Rightarrow> [])"
  by (simp_all add: store_analysis_run_def insert_analysis_run_def split: sum.splits)








subsection \<open>The run record\<close>

lemma stages_keep_runs:
  "analysis_runs (snd (gather_market_intelligence env w)) = analysis_runs w"
  "analysis_runs (snd (monitor_competitors env w)) = analysis_runs w"
  "analysis_runs (snd (analyze_market_trends env w)) = analysis_runs w"
  "analysis_runs (snd (generate_strategic_analysis env w)) = analysis_runs w"
proof -
  show "analysis_runs (snd (gather_market_intelligence env w)) = analysis_runs w"
    using market_stage_effect[of env w] by (auto simp: beside_findings_def)
  show "analysis_runs (snd (monitor_competitors env w)) = analysis_runs w"
    using competitor_stage_effect[of env w] by (auto simp: beside_updates_def)
  show "analysis_runs (snd (analyze_market_trends env w)) = analysis_runs w"
    using trend_stage_effect[of env w] by (auto simp: beside_trends_def)
  show "analysis_runs (snd (generate_strategic_analysis env w)) = analysis_runs w"
    using synthesis_stage_effect[of env w] by (auto simp: beside_opportunities_def)
qed

lemma daily_stages_effect:
  "fst (daily_stages env w) =
     Inr (fst (gather_market_intelligence env w),
          fst (monitor_competitors env (snd (gather_market_intelligence env w))),
          fst (analyze_market_trends env (snd (monitor_competitors env (snd (gather_market_intelligence env w))))))"
  "analysis_runs (snd (daily_stages env w)) = analysis_runs w"
  by (simp_all add: daily_stages_def gather_def returns_def case_prod_beta and_then_def stages_keep_runs)

lemma make_analysis_run_completed:
  "make_analysis_run env (completed_results env m c t s) = Inr run \<Longrightarrow>
     ar_status run = ''completed'' \<and> ar_findings_count run = market_findings_count m \<and> run_date run = today env"
  by (auto simp: make_analysis_run_def completed_results_def and_then_Inr_iff)

lemma daily_finish_effect:
  fixes env m c t wg
  defines "s \<equiv> fst (generate_strategic_analysis env wg)"
  defines "fin \<equiv> daily_finish env (returns (generate_strategic_analysis env)) (Inr (m, c, t), wg)"
  shows "fst fin = completed_results env m c t s"
    and "analysis_runs (snd fin) = analysis_runs wg \<or>
         (\<exists>run. analysis_runs (snd fin) = analysis_runs wg @ [run] \<and> make_analysis_run env (fst fin) = Inr run)"
    and "(\<forall>n. db_up env n) \<Longrightarrow> make_analysis_run env (fst fin) = Inr run
           \<Longrightarrow> analysis_runs (snd fin) = analysis_runs wg @ [run]"
proof -
  define w4 where "w4 = snd (generate_strategic_analysis env wg)"
  have fin: "fin = (completed_results env m c t s,
               send_daily_notifications env (completed_results env m c t s)
                 (store_analysis_run env (completed_results env m c t s) w4))"
    by (simp add: fin_def daily_finish_def returns_def case_prod_beta Let_def s_def w4_def)
  then show "fst fin = completed_results env m c t s" by simp
  have rows: "analysis_runs (snd fin) = analysis_runs wg @
      (case make_analysis_run env (fst fin) of
         Inr run \<Rightarrow> if db_up env (tick (snd (generate_strategic_analysis env wg))) then [run] else []
       | Inl e \<Rightarrow> [])"
    using send_daily_notifications_tables[of env "completed_results env m c t s"
        "store_analysis_run env (completed_results env m c t s) w4"] fin
    by (simp add: tables_def store_analysis_run_effect(6) w4_def stages_keep_runs)
  then show "analysis_runs (snd fin) = analysis_runs wg \<or>
         (\<exists>run. analysis_runs (snd fin) = analysis_runs wg @ [run] \<and> make_analysis_run env (fst fin) = Inr run)"
    by (auto split: sum.splits if_splits)
  show "(\<forall>n. db_up env n) \<Longrightarrow> make_analysis_run env (fst fin) = Inr run
           \<Longrightarrow> analysis_runs (snd fin) = analysis_runs wg @ [run]"
    using rows by simp
qed

lemma run_daily_analysis_phases:
  "run_daily_analysis env w = daily_finish env (returns (generate_strategic_analysis env)) (daily_stages env w)"
  by (simp add: run_daily_analysis_def run_daily_analysis_with_def daily_stages_def)


lemmas run_defs2 = run_defs seven_findings_def good_finding_def
  bad_finding_def





subsection \<open>Two runs\<close>

lemma interleaved_rows:
  assumes up: "\<forall>n. db_up env n"
    and a: "make_analysis_run env (fst (fst (two_runs_interleaved env w))) = Inr row_a"
    and b: "make_analysis_run env (snd (fst (two_runs_interleaved env w))) = Inr row_b"
  shows "analysis_runs (snd (two_runs_interleaved env w)) = analysis_runs w @ [row_a, row_b]
     \<and> run_date row_a = today env \<and> run_date row_b = today env"
proof -
  define w1 where "w1 = snd (daily_stages env w)"
  define w2 where "w2 = snd (daily_stages env w1)"
  obtain ma ca ta where ga: "fst (daily_stages env w) = Inr (ma, ca, ta)"
    using daily_stages_effect(1)[of env w] by blast
  obtain mb cb tb where gb: "fst (daily_stages env w1) = Inr (mb, cb, tb)"
    using daily_stages_effect(1)[of env w1] by blast
  define fa where "fa = daily_finish env (returns (generate_strategic_analysis env)) (Inr (ma, ca, ta), w2)"
  define fb where "fb = daily_finish env (returns (generate_strategic_analysis env)) (Inr (mb, cb, tb), snd fa)"
  have sa: "daily_stages env w = (Inr (ma, ca, ta), w1)"
    using ga by (simp add: w1_def prod_eq_iff)
  have sb: "daily_stages env w1 = (Inr (mb, cb, tb), w2)"
    using gb by (simp add: w2_def prod_eq_iff)
  have two: "two_runs_interleaved env w = ((fst fa, fst fb), snd fb)"
    by (simp add: two_runs_interleaved_def sa sb case_prod_beta Let_def fa_def fb_def)
  have w2: "analysis_runs w2 = analysis_runs w"
    using daily_stages_effect(2)[of env w] daily_stages_effect(2)[of env w1] by (simp add: w1_def w2_def)
  have ra: "analysis_runs (snd fa) = analysis_runs w2 @ [row_a]"
    using daily_finish_effect(3)[where env=env and m=ma and c=ca and t=ta and wg=w2 and run=row_a, OF up] a two by (simp add: fa_def)
  have rb: "analysis_runs (snd fb) = analysis_runs (snd fa) @ [row_b]"
    using daily_finish_effect(3)[where env=env and m=mb and c=cb and t=tb and wg="snd fa" and run=row_b, OF up] b two by (simp add: fb_def)
  have da: "run_date row_a = today env"
    using daily_finish_effect(1)[where env=env and m=ma and c=ca and t=ta and wg=w2] a two make_analysis_run_completed[of env ma ca ta _ row_a]
    by (simp add: fa_def)
  have db: "run_date row_b = today env"
    using daily_finish_effect(1)[where env=env and m=mb and c=cb and t=tb and wg="snd fa"] b two make_analysis_run_completed[of env mb cb tb _ row_b]
    by (simp add: fb_def)
  show ?thesis using two ra rb w2 da db by simp
qed

lemma sequence_rows:
  assumes up: "\<forall>n. db_up env n"
    and a: "make_analysis_run env (fst (fst (two_runs_in_sequence env w))) = Inr row_a"
    and b: "make_analysis_run env (snd (fst (two_runs_in_sequence env w))) = Inr row_b"
  shows "analysis_runs (snd (two_runs_in_sequence env w)) = analysis_runs w @ [row_a, row_b]
     \<and> run_date row_a = today env \<and> run_date row_b = today env"
proof -
  define w1 where "w1 = snd (daily_stages env w)"
  obtain ma ca ta where ga: "fst (daily_stages env w) = Inr (ma, ca, ta)"
    using daily_stages_effect(1)[of env w] by blast
  define fa where "fa = daily_finish env (returns (generate_strategic_analysis env)) (Inr (ma, ca, ta), w1)"
  define w2 where "w2 = snd (daily_stages env (snd fa))"
  obtain mb cb tb where gb: "fst (daily_stages env (snd fa)) = Inr (mb, cb, tb)"
    using daily_stages_effect(1)[of env "snd fa"] by blast
  define fb where "fb = daily_finish env (returns (generate_strategic_analysis env)) (Inr (mb, cb, tb), w2)"
  have sa: "daily_stages env w = (Inr (ma, ca, ta), w1)"
    using ga by (simp add: w1_def prod_eq_iff)
  have sb: "daily_stages env (snd fa) = (Inr (mb, cb, tb), w2)"
    using gb by (simp add: w2_def prod_eq_iff)
  have r1: "run_daily_analysis env w = fa"
    by (simp add: run_daily_analysis_phases sa fa_def)
  have r2: "run_daily_analysis env (snd fa) = fb"
    by (simp add: run_daily_analysis_phases sb fb_def)
  have two: "two_runs_in_sequence env w = ((fst fa, fst fb), snd fb)"
    using r1 r2 by (simp add: two_runs_in_sequence_def case_prod_beta Let_def)
  have w1: "analysis_runs w1 = analysis_runs w"
    using daily_stages_effect(2)[of env w] by (simp add: w1_def)
  have w2: "analysis_runs w2 = analysis_runs (snd fa)"
    using daily_stages_effect(2)[of env "snd fa"] by (simp add: w2_def)
  have ra: "analysis_runs (snd fa) = analysis_runs w1 @ [row_a]"
    using daily_finish_effect(3)[where env=env and m=ma and c=ca and t=ta and wg=w1 and run=row_a, OF up] a two by (simp add: fa_def)
  have rb: "analysis_runs (snd fb) = analysis_runs w2 @ [row_b]"
    using daily_finish_effect(3)[where env=env and m=mb and c=cb and t=tb and wg=w2 and run=row_b, OF up] b two by (simp add: fb_def)
  have da: "run_date row_a = today env"
    using daily_finish_effect(1)[where env=env and m=ma and c=ca and t=ta and wg=w1] a two make_analysis_run_completed[of env ma ca ta _ row_a]
    by (simp add: fa_def)
  have db: "run_date row_b = today env"
    using daily_finish_effect(1)[where env=env and m=mb and c=cb and t=tb and wg=w2] b two make_analysis_run_completed[of env mb cb tb _ row_b]
    by (simp add: fb_def)
  show ?thesis using two ra rb w1 w2 da db by simp
qed

lemma send_alerts_outbox: "outbox (send_alerts env as w) = outbox w @ map CriticalAlertMail as"
  by (induction as arbitrary: w) (simp_all add: send_critical_alert_def)

lemma send_daily_notifications_outbox:
  "summary r = Some sm \<Longrightarrow>
     \<exists>rd. outbox (send_daily_notifications env r w)
            = outbox w @ map CriticalAlertMail (identify_critical_alerts r) @ [DailyReportMail rd]"
  by (simp add: send_daily_notifications_def Let_def send_daily_report_def send_alerts_outbox)

lemma stages_keep_outbox:
  "outbox (snd (gather_market_intelligence env w)) = outbox w"
  "outbox (snd (monitor_competitors env w)) = outbox w"
  "outbox (snd (analyze_market_trends env w)) = outbox w"
  "outbox (snd (generate_strategic_analysis env w)) = outbox w"
proof -
  show "outbox (snd (gather_market_intelligence env w)) = outbox w"
    using market_stage_effect[of env w] by (auto simp: beside_findings_def)
  show "outbox (snd (monitor_competitors env w)) = outbox w"
    using competitor_stage_effect[of env w] by (auto simp: beside_updates_def)
  show "outbox (snd (analyze_market_trends env w)) = outbox w"
    using trend_stage_effect[of env w] by (auto simp: beside_trends_def)
  show "outbox (snd (generate_strategic_analysis env w)) = outbox w"
    using synthesis_stage_effect[of env w] by (auto simp: beside_opportunities_def)
qed

lemma daily_stages_outbox: "outbox (snd (daily_stages env w)) = outbox w"
  by (simp add: daily_stages_def gather_def returns_def case_prod_beta stages_keep_outbox)

lemma daily_finish_outbox:
  "\<exists>rd. outbox (snd (daily_finish env (returns (generate_strategic_analysis env)) (Inr (m, c, t), wg)))
         = outbox wg
           @ map CriticalAlertMail (identify_critical_alerts
               (fst (daily_finish env (returns (generate_strategic_analysis env)) (Inr (m, c, t), wg))))
           @ [DailyReportMail rd]"
proof -
  define s where "s = fst (generate_strategic_analysis env wg)"
  define w4 where "w4 = snd (generate_strategic_analysis env wg)"
  define res where "res = completed_results env m c t s"
  have fin: "daily_finish env (returns (generate_strategic_analysis env)) (Inr (m, c, t), wg)
        = (res, send_daily_notifications env res (store_analysis_run env res w4))"
    by (simp add: daily_finish_def returns_def case_prod_beta Let_def s_def w4_def res_def)
  obtain sm where sm: "summary res = Some sm"
    by (simp add: res_def completed_results_def)
  obtain rd where "outbox (send_daily_notifications env res (store_analysis_run env res w4))
            = outbox (store_analysis_run env res w4) @ map CriticalAlertMail (identify_critical_alerts res) @ [DailyReportMail rd]"
    using send_daily_notifications_outbox[OF sm] by blast
  then have "outbox (send_daily_notifications env res (store_analysis_run env res w4))
            = outbox wg @ map CriticalAlertMail (identify_critical_alerts res) @ [DailyReportMail rd]"
    by (simp add: store_analysis_run_effect(5) w4_def stages_keep_outbox)
  then show ?thesis unfolding fin by auto
qed

lemma interleaved_mails:
  "\<exists>rd_a rd_b.
     outbox (snd (two_runs_interleaved env w))
       = outbox w
         @ map CriticalAlertMail (identify_critical_alerts (fst (fst (two_runs_interleaved env w))))
         @ [DailyReportMail rd_a]
         @ map CriticalAlertMail (identify_critical_alerts (snd (fst (two_runs_interleaved env w))))
         @ [DailyReportMail rd_b]"
proof -
  define w1 where "w1 = snd (daily_stages env w)"
  define w2 where "w2 = snd (daily_stages env w1)"
  obtain ma ca ta where ga: "fst (daily_stages env w) = Inr (ma, ca, ta)"
    using daily_stages_effect(1)[of env w] by blast
  obtain mb cb tb where gb: "fst (daily_stages env w1) = Inr (mb, cb, tb)"
    using daily_stages_effect(1)[of env w1] by blast
  define fa where "fa = daily_finish env (returns (generate_strategic_analysis env)) (Inr (ma, ca, ta), w2)"
  define fb where "fb = daily_finish env (returns (generate_strategic_analysis env)) (Inr (mb, cb, tb), snd fa)"
  have sa: "daily_stages env w = (Inr (ma, ca, ta), w1)"
    using ga by (simp add: w1_def prod_eq_iff)
  have sb: "daily_stages env w1 = (Inr (mb, cb, tb), w2)"
    using gb by (simp add: w2_def prod_eq_iff)
  have two: "two_runs_interleaved env w = ((fst fa, fst fb), snd fb)"
    by (simp add: two_runs_interleaved_def sa sb case_prod_beta Let_def fa_def fb_def)
  have w2: "outbox w2 = outbox w"
    by (simp add: w1_def w2_def daily_stages_outbox)
  obtain rd_a where ra: "outbox (snd fa) = outbox w2 @ map CriticalAlertMail (identify_critical_alerts (fst fa)) @ [DailyReportMail rd_a]"
    unfolding fa_def using daily_finish_outbox[of env ma ca ta w2] by blast
  obtain rd_b where rb: "outbox (snd fb) = outbox (snd fa) @ map CriticalAlertMail (identify_critical_alerts (fst fb)) @ [DailyReportMail rd_b]"
    unfolding fb_def using daily_finish_outbox[of env mb cb tb "snd fa"] by blast
  show ?thesis
    unfolding two using ra rb w2 by (intro exI[of _ rd_a] exI[of _ rd_b]) simp
qed

lemma sequence_mails:
  "\<exists>rd_a rd_b.
     outbox (snd (two_runs_in_sequence env w))
       = outbox w
         @ map CriticalAlertMail (identify_critical_alerts (fst (fst (two_runs_in_sequence env w))))
         @ [DailyReportMail rd_a]
         @ map CriticalAlertMail (identify_critical_alerts (snd (fst (two_runs_in_sequence env w))))
         @ [DailyReportMail rd_b]"
proof -
  define w1 where "w1 = snd (daily_stages env w)"
  obtain ma ca ta where ga: "fst (daily_stages env w) = Inr (ma, ca, ta)"
    using daily_stages_effect(1)[of env w] by blast
  define fa where "fa = daily_finish env (returns (generate_strategic_analysis env)) (Inr (ma, ca, ta), w1)"
  define w2 where "w2 = snd (daily_stages env (snd fa))"
  obtain mb cb tb where gb: "fst (daily_stages env (snd fa)) = Inr (mb, cb, tb)"
    using daily_stages_effect(1)[of env "snd fa"] by blast
  define fb where "fb = daily_finish env (returns (generate_strategic_analysis env)) (Inr (mb, cb, tb), w2)"
  have sa: "daily_stages env w = (Inr (ma, ca, ta), w1)"
    using ga by (simp add: w1_def prod_eq_iff)
  have sb: "daily_stages env (snd fa) = (Inr (mb, cb, tb), w2)"
    using gb by (simp add: w2_def prod_eq_iff)
  have r1: "run_daily_analysis env w = fa"
    by (simp add: run_daily_analysis_phases sa fa_def)
  have r2: "run_daily_analysis env (snd fa) = fb"
    by (simp add: run_daily_analysis_phases sb fb_def)
  have two: "two_runs_in_sequence env w = ((fst fa, fst fb), snd fb)"
    using r1 r2 by (simp add: two_runs_in_sequence_def case_prod_beta Let_def)
  have w1: "outbox w1 = outbox w" by (simp add: w1_def daily_stages_outbox)
  have w2: "outbox w2 = outbox (snd fa)" by (simp add: w2_def daily_stages_outbox)
  obtain rd_a where ra: "outbox (snd fa) = outbox w1 @ map CriticalAlertMail (identify_critical_alerts (fst fa)) @ [DailyReportMail rd_a]"
    unfolding fa_def using daily_finish_outbox[of env ma ca ta w1] by blast
  obtain rd_b where rb: "outbox (snd fb) = outbox w2 @ map CriticalAlertMail (identify_critical_alerts (fst fb)) @ [DailyReportMail rd_b]"
    unfolding fb_def using daily_finish_outbox[of env mb cb tb w2] by blast
  show ?thesis
    unfolding two using ra rb w1 w2 by (intro exI[of _ rd_a] exI[of _ rd_b]) simp
qed

text \<open>
  Claim C7, as the code has it. There is no guard: of two daily runs of one day, one
  after the other or interleaved at the await of the stages, each builds its own
  \<^verbatim>\<open>AnalysisRun\<close> and inserts it, so two rows of that date are stored whenever both
  rows pass the model's validation and the database accepts them; and each run sends
  its own notifications, the critical alerts of its report and then its daily report,
  so the notifier is called for the first run's and then for the second run's.
\<close>

theorem two_runs_store_two_rows:
  "((\<forall>n. db_up env n)
      \<and> make_analysis_run env (fst (fst (two_runs_interleaved env w))) = Inr row_a
      \<and> make_analysis_run env (snd (fst (two_runs_interleaved env w))) = Inr row_b
    \<longrightarrow> analysis_runs (snd (two_runs_interleaved env w)) = analysis_runs w @ [row_a, row_b]
        \<and> run_date row_a = today env \<and> run_date row_b = today env)
   \<and> ((\<forall>n. db_up env n)
      \<and> make_analysis_run env (fst (fst (two_runs_in_sequence env w))) = Inr row_c
      \<and> make_analysis_run env (snd (fst (two_runs_in_sequence env w))) = Inr row_d
    \<longrightarrow> analysis_runs (snd (two_runs_in_sequence env w)) = analysis_runs w @ [row_c, row_d]
        \<and> run_date row_c = today env \<and> run_date row_d = today env)
   \<and> (\<exists>report_a report_b.
        outbox (snd (two_runs_interleaved env w))
          = outbox w
            @ map CriticalAlertMail (identify_critical_alerts (fst (fst (two_runs_interleaved env w))))
            @ [DailyReportMail report_a]
            @ map CriticalAlertMail (identify_critical_alerts (snd (fst (two_runs_interleaved env w))))
            @ [DailyReportMail report_b])
   \<and> (\<exists>report_c report_d.
        outbox (snd (two_runs_in_sequence env w))
          = outbox w
            @ map CriticalAlertMail (identify_critical_alerts (fst (fst (two_runs_in_sequence env w))))
            @ [DailyReportMail report_c]
            @ map CriticalAlertMail (identify_critical_alerts (snd (fst (two_runs_in_sequence env w))))
            @ [DailyReportMail report_d])"
  using interleaved_rows[of env w row_a row_b] sequence_rows[of env w row_c row_d]
    interleaved_mails[of env w] sequence_mails[of env w] by blast

lemmas run_defs3 = run_defs2 two_runs_interleaved_def daily_stages_def

lemma guardless_reports:
  "make_analysis_run guardless_env (fst (fst (two_runs_interleaved guardless_env empty_world))) = Inr guardless_row"
  "make_analysis_run guardless_env (snd (fst (two_runs_interleaved guardless_env empty_world))) = Inr guardless_row"
  by (simp_all add: run_defs3 guardless_env_def quiet_env_def empty_world_def case_prod_beta Let_def
      guardless_row_def)

text \<open>
  Claim C7 as stated fails: two interleaved runs from the empty store, with a
  completion service that proposes one opportunity of score 0.95 and priority high,
  leave two \<^verbatim>\<open>AnalysisRun\<close> rows of the same date, and the notifier is called twice
  with the alert of that opportunity and twice with a daily report.
\<close>

theorem interleaved_runs_store_two_rows_and_alert_twice:
  "map run_date (analysis_runs (snd (two_runs_interleaved alerting_env empty_world))) = [0, 0]
   \<and> map al_title (alerts_sent (snd (two_runs_interleaved alerting_env empty_world)))
       = [''High-Value Opportunity: Agent platform'', ''High-Value Opportunity: Agent platform'']
   \<and> length (reports_sent (snd (two_runs_interleaved alerting_env empty_world))) = 2"
  by (simp add: run_defs3 alerting_env_def quiet_env_def empty_world_def hot_opportunity_def case_prod_beta Let_def
      opportunity_alert_def alerts_sent_def reports_sent_def)

theorem two_runs_store_two_rows_witness:
  "(\<forall>n. db_up guardless_env n)
   \<and> analysis_runs (snd (two_runs_interleaved guardless_env empty_world)) = [guardless_row, guardless_row]"
proof -
  have up: "\<forall>n. db_up guardless_env n" by (simp add: guardless_env_def quiet_env_def)
  show ?thesis
    using two_runs_store_two_rows [of guardless_env empty_world guardless_row guardless_row] up guardless_reports
    by (simp add: empty_world_def)
qed

subsection \<open>What the synthesis reads\<close>










subsection \<open>The command line\<close>

lemma main_returns_normally:
  "fst (main env crew_daily crew_weekly crew_quick argv w) = Inr ()"
  by (simp add: main_def)



end
